theory Spec2Isabelle
  imports Main
begin

section \<open>JavaScript values met by the worker manager\<close>

text \<open>
  The manager of \<^verbatim>\<open>src/debugger/appWorker.ts\<close> handles untyped values: the objects that
  \<^verbatim>\<open>JSON.parse\<close> returns, the payloads handed to \<^verbatim>\<open>sendMessageToApp\<close> and the
  reply object \<^verbatim>\<open>{replyID: ...}\<close>. They are the values of \<open>jsval\<close>: \<open>JNum n\<close> is the
  Number whose value is the integer \<open>n\<close>, \<open>JNaN\<close> is \<^verbatim>\<open>NaN\<close>, an object is the list
  of its own properties. Strings are lists of 8-bit characters.
\<close>

datatype jsval =
    JUndefined
  | JNull
  | JBool bool
  | JNum int
  | JNaN
  | JStr string
  | JArr "jsval list"
  | JObj "(string \<times> jsval) list"

datatype InternalErrorCode =
    SourcesStoragePathIsNullOrEmpty
  | CannotAttachToPackagerCheckPackagerRunningOnPort
  | AnotherDebuggerConnectedToPackager
  | ReconnectionToPackagerFailedCheckForErrorsOrRestartReactNative
  | FailedToProcessMessageFromReactNativeApp
  | FailedToPrepareJSRuntimeEnvironment
  | FailedToSendMessageToTheReactNativeApp
  | DebuggingWontWorkReloadJSAndReconnect

text \<open>
  Exceptions and promise rejections. \<open>InternalError c args\<close> is
  \<^verbatim>\<open>ErrorHelper.getInternalError(c, ...args)\<close>, \<open>NestedError e c r\<close> is
  \<^verbatim>\<open>ErrorHelper.getNestedError(e, c, r)\<close>, \<open>Failure\<close> is an error raised by a
  collaborator (the socket, the sandbox, the file system); the others are the errors that
  the language itself throws.
\<close>

datatype exn =
    InternalError InternalErrorCode "jsval list"
  | NestedError exn InternalErrorCode exn
  | TypeError
  | RangeError
  | SyntaxError
  | Failure string

subsection \<open>Conversion to a string\<close>

definition digit_char :: "nat \<Rightarrow> char" where
  "digit_char d = char_of (48 + d)"

fun decimal :: "nat \<Rightarrow> string" where
  "decimal n = (if n < 10 then [digit_char n] else decimal (n div 10) @ [digit_char (n mod 10)])"

declare decimal.simps [simp del]

fun strip_zeros :: "string \<Rightarrow> string" where
  "strip_zeros ds = rev (dropWhile (\<lambda>c. c = CHR ''0'') (rev ds))"

text \<open>
  \<^verbatim>\<open>Number::toString\<close> on an integral Number: plain decimal digits below \<open>10^21\<close> in
  magnitude, exponent notation from there on (the significant digits, a point after the
  first one when there are several, \<^verbatim>\<open>e+\<close> and the exponent). The digits printed in
  exponent notation are those of the integer without its trailing zeros.
\<close>

definition exponent_notation :: "nat \<Rightarrow> string" where
  "exponent_notation n =
     (let ds = decimal n; sig = strip_zeros ds
      in (case sig of [] \<Rightarrow> [] | d # rest \<Rightarrow> (if rest = [] then [d] else d # CHR ''.'' # rest))
         @ ''e+'' @ decimal (length ds - 1))"

definition Number_toString :: "int \<Rightarrow> string" where
  "Number_toString n =
     (if n < 0 then ''-'' else [])
     @ (if \<bar>n\<bar> < 10 ^ 21 then decimal (nat \<bar>n\<bar>) else exponent_notation (nat \<bar>n\<bar>))"

fun join_strings :: "string \<Rightarrow> string list \<Rightarrow> string" where
  "join_strings sep [] = []"
| "join_strings sep [x] = x"
| "join_strings sep (x # y # ys) = x @ sep @ join_strings sep (y # ys)"

text \<open>
  The results of a list of conversions, made from left to right: the first exception
  ends them.
\<close>

fun first_failure :: "(exn + string) list \<Rightarrow> exn + string list" where
  "first_failure [] = Inr []"
| "first_failure (Inl e # rs) = Inl e"
| "first_failure (Inr x # rs) =
     (case first_failure rs of Inl e \<Rightarrow> Inl e | Inr xs \<Rightarrow> Inr (x # xs))"

text \<open>
  The conversion to a string, as made by \<^verbatim>\<open>"" + v\<close>, by a template literal and by
  the first step of \<^verbatim>\<open>parseInt\<close>; \<open>Inl\<close> when it throws. An array is converted by
  \<^verbatim>\<open>join\<close>: its elements separated by commas, \<^verbatim>\<open>null\<close> and \<^verbatim>\<open>undefined\<close>
  elements empty, the others converted in turn. That recursion uses the call stack: the
  first argument is the number of nested arrays that the stack allows, and an array
  nested deeper throws a \<^verbatim>\<open>RangeError\<close>. An object without an own property
  \<^verbatim>\<open>toString\<close> prints as \<^verbatim>\<open>[object Object]\<close>; with one, which is no function for the
  values here, neither \<^verbatim>\<open>toString\<close> nor \<^verbatim>\<open>valueOf\<close> gives a primitive and the
  conversion throws a \<^verbatim>\<open>TypeError\<close>.
\<close>

fun ToString :: "nat \<Rightarrow> jsval \<Rightarrow> exn + string" where
  "ToString d JUndefined = Inr ''undefined''"
| "ToString d JNull = Inr ''null''"
| "ToString d (JBool b) = Inr (if b then ''true'' else ''false'')"
| "ToString d (JNum n) = Inr (Number_toString n)"
| "ToString d JNaN = Inr ''NaN''"
| "ToString d (JStr s) = Inr s"
| "ToString 0 (JArr xs) = Inl RangeError"
| "ToString (Suc d) (JArr xs) =
     (case first_failure
             (map (\<lambda>x. if x = JUndefined \<or> x = JNull then Inr [] else ToString d x) xs) of
        Inl e \<Rightarrow> Inl e
      | Inr texts \<Rightarrow> Inr (join_strings '','' texts))"
| "ToString d (JObj kvs) =
     (if map_of kvs ''toString'' = None then Inr ''[object Object]'' else Inl TypeError)"

fun truthy :: "jsval \<Rightarrow> bool" where
  "truthy JUndefined = False"
| "truthy JNull = False"
| "truthy (JBool b) = b"
| "truthy (JNum n) = (n \<noteq> 0)"
| "truthy JNaN = False"
| "truthy (JStr s) = (s \<noteq> [])"
| "truthy (JArr xs) = True"
| "truthy (JObj kvs) = True"

subsection \<open>parseInt with radix 10\<close>

definition is_white_space :: "char \<Rightarrow> bool" where
  "is_white_space c \<longleftrightarrow> c \<in> {CHR 0x09, CHR 0x0A, CHR 0x0B, CHR 0x0C, CHR 0x0D, CHR 0x20}"

definition is_digit :: "char \<Rightarrow> bool" where
  "is_digit c \<longleftrightarrow> 48 \<le> (of_char c :: nat) \<and> (of_char c :: nat) \<le> 57"

definition digit_value :: "char \<Rightarrow> nat" where
  "digit_value c = of_char c - 48"

definition digits_value :: "string \<Rightarrow> nat" where
  "digits_value ds = foldl (\<lambda>a c. 10 * a + digit_value c) 0 ds"

text \<open>
  \<^verbatim>\<open>parseInt(str, 10)\<close> on a string: leading white space is skipped (here the white
  space of ASCII), one sign is read, then the longest run of decimal digits; no digit at
  all gives \<^verbatim>\<open>NaN\<close> (\<open>None\<close>).
\<close>

definition parseInt_string :: "string \<Rightarrow> int option" where
  "parseInt_string str =
     (let S = dropWhile is_white_space str;
          sign = (if take 1 S = ''-'' then - 1 else 1);
          S' = (if take 1 S = ''-'' \<or> take 1 S = ''+'' then drop 1 S else S);
          Z = takeWhile is_digit S'
      in if Z = [] then None else Some (sign * int (digits_value Z)))"

text \<open>
  \<^verbatim>\<open>parseInt(v, 10)\<close> on any value: the value is converted to a string first, which may
  throw.
\<close>

definition parseInt :: "nat \<Rightarrow> jsval \<Rightarrow> exn + jsval" where
  "parseInt d v =
     (case ToString d v of
        Inl e \<Rightarrow> Inl e
      | Inr str \<Rightarrow> Inr (case parseInt_string str of None \<Rightarrow> JNaN | Some n \<Rightarrow> JNum n))"

text \<open>
  Reading a property: \<^verbatim>\<open>null\<close> and \<^verbatim>\<open>undefined\<close> have none and the access throws a
  \<^verbatim>\<open>TypeError\<close>; an object gives its own property or \<^verbatim>\<open>undefined\<close>; the other values
  have no property of the two names read here (\<^verbatim>\<open>method\<close>, \<^verbatim>\<open>id\<close>).
\<close>

fun get_prop :: "jsval \<Rightarrow> string \<Rightarrow> exn + jsval" where
  "get_prop JUndefined k = Inl TypeError"
| "get_prop JNull k = Inl TypeError"
| "get_prop (JObj kvs) k = Inr (case map_of kvs k of None \<Rightarrow> JUndefined | Some v \<Rightarrow> v)"
| "get_prop v k = Inr JUndefined"

section \<open>The bootstrap texts\<close>

text \<open>
  The five static texts of \<^verbatim>\<open>MultipleLifetimesAppWorker\<close>, character for character;
  each is the concatenation of its lines.
\<close>

definition WORKER_BOOTSTRAP :: string where
  \<open>WORKER_BOOTSTRAP = concat [
     ''\<newline>'',
     ''// Initialize some variables before react-native code would access them\<newline>'',
     ''var onmessage=null, self=global;\<newline>'',
     ''// Cache Node's original require as __debug__.require\<newline>'',
     ''global.__debug__={require: require};\<newline>'',
     ''// avoid Node's GLOBAL deprecation warning\<newline>'',
     ''Object.defineProperty(global, "GLOBAL", {\<newline>'',
     ''    configurable: true,\<newline>'',
     ''    writable: true,\<newline>'',
     ''    enumerable: true,\<newline>'',
     ''    value: global\<newline>'',
     ''});\<newline>'',
     ''// Prevent leaking process.versions from debugger process to\<newline>'',
     ''// worker because pure React Native doesn't do that and some packages as js-md5 rely on this behavior\<newline>'',
     ''Object.defineProperty(process, "versions", {\<newline>'',
     ''    value: undefined\<newline>'',
     ''});\<newline>'',
     ''\<newline>'',
     ''function getNativeModules() {\<newline>'',
     ''    var NativeModules;\<newline>'',
     ''    try {\<newline>'',
     ''        // This approach is for old RN versions\<newline>'',
     ''        NativeModules = global.require('NativeModules');\<newline>'',
     ''    } catch (err) {\<newline>'',
     ''        // ignore error and try another way for more recent RN versions\<newline>'',
     ''        try {\<newline>'',
     ''            var nativeModuleId;\<newline>'',
     ''            var modules = global.__r.getModules();\<newline>'',
     ''            var ids = Object.keys(modules);\<newline>'',
     ''            for (var i = 0; i < ids.length; i++) {\<newline>'',
     ''              if (modules[ids[i]].verboseName) {\<newline>'',
     ''                 var packagePath = new String(modules[ids[i]].verboseName);\<newline>'',
     ''                 if (packagePath.indexOf("react-native/Libraries/BatchedBridge/NativeModules.js") > 0) {\<newline>'',
     ''                   nativeModuleId = parseInt(ids[i], 10);\<newline>'',
     ''                   break;\<newline>'',
     ''                 }\<newline>'',
     ''              }\<newline>'',
     ''            }\<newline>'',
     ''          if (nativeModuleId) {\<newline>'',
     ''            NativeModules = global.__r(nativeModuleId);\<newline>'',
     ''          }\<newline>'',
     ''        }\<newline>'',
     ''        catch (err) {\<newline>'',
     ''            // suppress errors\<newline>'',
     ''        }\<newline>'',
     ''    }\<newline>'',
     ''    return NativeModules;\<newline>'',
     ''}\<newline>'',
     ''\<newline>'',
     ''// Originally, this was made for iOS only\<newline>'',
     ''var vscodeHandlers = {\<newline>'',
     ''    'vscode_reloadApp': function () {\<newline>'',
     ''        var NativeModules = getNativeModules();\<newline>'',
     ''        if (NativeModules) {\<newline>'',
     ''            NativeModules.DevMenu.reload();\<newline>'',
     ''        }\<newline>'',
     ''    },\<newline>'',
     ''    'vscode_showDevMenu': function () {\<newline>'',
     ''        var NativeModules = getNativeModules();\<newline>'',
     ''        if (NativeModules) {\<newline>'',
     ''            NativeModules.DevMenu.show();\<newline>'',
     ''        }\<newline>'',
     ''    }\<newline>'',
     ''};\<newline>'',
     ''\<newline>'',
     ''process.on("message", function (message) {\<newline>'',
     ''    if (message.data && vscodeHandlers[message.data.method]) {\<newline>'',
     ''        vscodeHandlers[message.data.method]();\<newline>'',
     ''    } else if(onmessage) {\<newline>'',
     ''        onmessage(message);\<newline>'',
     ''    }\<newline>'',
     ''});\<newline>'',
     ''\<newline>'',
     ''var postMessage = function(message){\<newline>'',
     ''    process.send(message);\<newline>'',
     ''};\<newline>'',
     ''\<newline>'',
     ''if (!self.postMessage) {\<newline>'',
     ''    self.postMessage = postMessage;\<newline>'',
     ''}\<newline>'',
     ''\<newline>'',
     ''var importScripts = (function(){\<newline>'',
     ''    var fs=require('fs'), vm=require('vm');\<newline>'',
     ''    return function(scriptUrl){\<newline>'',
     ''        var scriptCode = fs.readFileSync(scriptUrl, "utf8");\<newline>'',
     ''        vm.runInThisContext(scriptCode, {filename: scriptUrl});\<newline>'',
     ''    };\<newline>'',
     ''})();'']\<close>

definition CONSOLE_TRACE_PATCH :: string where
  \<open>CONSOLE_TRACE_PATCH = concat [
     ''// Worker is ran as nodejs process, so console.trace() writes to stderr and it leads to error in native app\<newline>'',
     ''// To avoid this console.trace() is overridden to print stacktrace via console.log()\<newline>'',
     ''// Please, see Node JS implementation: https://github.com/nodejs/node/blob/master/lib/internal/console/constructor.js\<newline>'',
     ''console.trace = (function() {\<newline>'',
     ''    return function() {\<newline>'',
     ''        try {\<newline>'',
     ''            var err = {\<newline>'',
     ''                name: 'Trace',\<newline>'',
     ''                message: require('util').format.apply(null, arguments)\<newline>'',
     ''                };\<newline>'',
     ''            // Node uses 10, but usually it's not enough for RN app trace\<newline>'',
     ''            Error.stackTraceLimit = 30;\<newline>'',
     ''            Error.captureStackTrace(err, console.trace);\<newline>'',
     ''            console.log(err.stack);\<newline>'',
     ''        } catch (e) {\<newline>'',
     ''            console.error(e);\<newline>'',
     ''        }\<newline>'',
     ''    };\<newline>'',
     ''})();'']\<close>

definition NODE_PROCESS_FINDING_PATCH :: string where
  \<open>NODE_PROCESS_FINDING_PATCH = concat [
     ''// Worker is ran as nodejs process, so in some cases it tries to run metroRequire in nodejs context and it leads to error in native app\<newline>'',
     ''// To avoid this need to hide an attributes which can issue a nodejs process in debugger worker\<newline>'',
     ''var objectToString = Object.prototype.toString;\<newline>'',
     ''Object.prototype.toString = function() {\<newline>'',
     ''    if (this === process) {\<newline>'',
     ''        return '' @ [CHR 0x27, CHR 0x27] @ '';\<newline>'',
     ''    } else {\<newline>'',
     ''        return objectToString.call(this);\<newline>'',
     ''    }\<newline>'',
     ''}\<newline>'']\<close>

definition WORKER_DONE :: string where
  \<open>WORKER_DONE = concat [
     ''// Notify debugger that we're done with loading\<newline>'',
     ''// and started listening for IPC messages\<newline>'',
     ''postMessage({workerLoaded:true});'']\<close>

definition FETCH_STUB :: string where
  \<open>FETCH_STUB = concat [
     ''(function(self) {\<newline>'',
     ''        'use strict';\<newline>'',
     ''\<newline>'',
     ''        if (self.fetch) {\<newline>'',
     ''          return\<newline>'',
     ''        }\<newline>'',
     ''\<newline>'',
     ''        self.fetch = fetch;\<newline>'',
     ''\<newline>'',
     ''        function fetch(url) {\<newline>'',
     ''            return new Promise((resolve, reject) => {\<newline>'',
     ''                var data = require("fs").readFileSync(url, 'utf8');\<newline>'',
     ''                resolve(\<newline>'',
     ''                    {\<newline>'',
     ''                        text: function () {\<newline>'',
     ''                            return data;\<newline>'',
     ''                        }\<newline>'',
     ''                    });\<newline>'',
     ''            });\<newline>'',
     ''        }\<newline>'',
     ''      })(global);'']\<close>

text \<open>
  \<^verbatim>\<open>Array.prototype.join\<close> on an array of strings and \<^verbatim>\<open>null\<close>s: a \<^verbatim>\<open>null\<close>
  element contributes the empty string and keeps its separators.
\<close>

definition Array_join :: "string option list \<Rightarrow> string \<Rightarrow> string" where
  "Array_join xs sep = join_strings sep (map (\<lambda>x. case x of None \<Rightarrow> [] | Some t \<Rightarrow> t) xs)"

definition modifiedDebuggeeContent :: "bool \<Rightarrow> string \<Rightarrow> string" where
  "modifiedDebuggeeContent isHaul workerContent =
     Array_join
       [Some WORKER_BOOTSTRAP,
        Some CONSOLE_TRACE_PATCH,
        Some NODE_PROCESS_FINDING_PATCH,
        (if isHaul then Some FETCH_STUB else None),
        Some workerContent,
        Some WORKER_DONE]
       ''\<newline>''"

section \<open>The manager, its sockets and its effects\<close>

datatype ready_state = CONNECTING | OPEN | CLOSING | CLOSED

datatype promise = Pending | Resolved | Rejected exn

text \<open>
  A WebSocket made by \<^verbatim>\<open>createSocketToApp\<close>, with what its four handlers close over:
  the \<^verbatim>\<open>retryAttempt\<close> argument and the deferred whose promise the call returned.
  \<open>listeners\<close> tells whether the handlers are still registered.
\<close>

record socket =
  readyState :: ready_state
  closeMessage :: string
  listeners :: bool
  retryAttempt :: bool
  deferred :: promise

text \<open>
  What the manager does to the outside, in the order it does it. Sockets and sandbox
  workers are named by the handle they got at creation. \<open>SetTimeout d r\<close> is
  \<^verbatim>\<open>setTimeout(() => this.start(r), d)\<close>.
\<close>

datatype effect =
    LoggerVerbose string
  | LoggerLog string
  | LoggerError exn
  | PackagerCheck string int
  | DownloadDebuggerWorker
  | ReadFile string
  | WriteFile string string
  | SocketCreate nat string
  | SocketSend nat jsval
  | SocketRemoveAllListeners nat
  | SocketClose nat
  | WorkerCreate nat
  | WorkerStart nat
  | WorkerStop nat
  | WorkerPostMessage nat jsval
  | Emit string jsval
  | SetTimeout nat bool

text \<open>
  The fields of \<^verbatim>\<open>MultipleLifetimesAppWorker\<close> that the code below reads or writes,
  followed by the world around it: the socket objects, the continuations waiting for a
  sandbox to start (the message each one closes over), the storage, the next free handle
  and the effects so far. The roots passed through to the sandbox and to the script
  importer are left out.
\<close>

record manager =
  packagerAddress :: string
  packagerPort :: int
  sourcesStoragePath :: string
  projectRootPath :: string
  socketToApp :: "nat option"
  singleLifetimeWorker :: "nat option"
  executionLimiter :: "string \<rightharpoonup> int"
  sockets :: "nat \<Rightarrow> socket"
  pending_starts :: "(nat \<times> jsval) list"
  files :: "string \<rightharpoonup> string"
  next_handle :: nat
  trace :: "effect list"

text \<open>
  What the code takes from the JavaScript runtime and from modules that are not part of
  the manager: \<^verbatim>\<open>JSON.parse\<close> and \<^verbatim>\<open>JSON.stringify\<close> (\<open>Inl\<close> when they throw;
  \<^verbatim>\<open>JSON.stringify\<close> returns a string or \<^verbatim>\<open>undefined\<close>), the depth of nested arrays
  that the call stack allows to a string conversion, \<^verbatim>\<open>path.resolve\<close>,
  \<^verbatim>\<open>ScriptImporter.DEBUGGER_WORKER_FILENAME\<close> and
  \<^verbatim>\<open>ReactNativeProjectHelper.isHaulProject\<close>.
\<close>

record runtime =
  JSON_parse :: "string \<Rightarrow> exn + jsval"
  JSON_stringify :: "jsval \<Rightarrow> exn + jsval"
  stack_depth :: nat
  path_resolve :: "string \<Rightarrow> string \<Rightarrow> string"
  DEBUGGER_WORKER_FILENAME :: string
  isHaulProject :: "string \<Rightarrow> bool"

text \<open>
  What one call of \<^verbatim>\<open>start\<close> meets outside: whether the packager answers the health
  check, and what \<^verbatim>\<open>ScriptImporter.downloadDebuggerWorker\<close> does to the storage
  (\<open>Inl\<close> when the download fails).
\<close>

record outcome =
  packager_running :: bool
  downloadDebuggerWorker :: "(string \<rightharpoonup> string) \<Rightarrow> exn + (string \<rightharpoonup> string)"

definition perform :: "effect \<Rightarrow> manager \<Rightarrow> manager" where
  "perform e s = s\<lparr>trace := trace s @ [e]\<rparr>"

definition printDebuggingError :: "exn \<Rightarrow> exn \<Rightarrow> manager \<Rightarrow> manager" where
  "printDebuggingError error reason s =
     perform (LoggerError (NestedError error DebuggingWontWorkReloadJSAndReconnect reason)) s"

record attachRequestArguments =
  address :: "string option"
  port :: int

definition new_manager :: "attachRequestArguments \<Rightarrow> string \<Rightarrow> string \<Rightarrow> exn + manager" where
  "new_manager args storagePath rootPath =
     (if storagePath = [] then Inl (InternalError SourcesStoragePathIsNullOrEmpty [])
      else Inr \<lparr>packagerAddress =
                  (case address args of None \<Rightarrow> ''localhost''
                   | Some a \<Rightarrow> if a = [] then ''localhost'' else a),
                packagerPort = port args,
                sourcesStoragePath = storagePath,
                projectRootPath = rootPath,
                socketToApp = None,
                singleLifetimeWorker = None,
                executionLimiter = Map.empty,
                sockets = (\<lambda>c. \<lparr>readyState = CLOSED, closeMessage = [], listeners = False,
                                   retryAttempt = False, deferred = Pending\<rparr>),
                pending_starts = [],
                files = Map.empty,
                next_handle = 0,
                trace = []\<rparr>)"

section \<open>Collaborators\<close>

text \<open>
  Modelled from the spec: \<^verbatim>\<open>ExecutionsLimiter.execute\<close> (\<^verbatim>\<open>common/executionsLimiter\<close>
  is not among the sources). The specification describes a rate limit on repeated
  notifications: those within a short window are coalesced to one. The callback runs
  when no run of the same key was admitted during the last \<open>limitInSeconds\<close> seconds, and
  the time of the admitted run is recorded; \<open>now\<close> is the clock in milliseconds.
\<close>

definition lastExecution :: "string \<Rightarrow> manager \<Rightarrow> int" where
  "lastExecution key s = (case executionLimiter s key of None \<Rightarrow> 0 | Some t \<Rightarrow> t)"

definition execute :: "string \<Rightarrow> int \<Rightarrow> int \<Rightarrow> (manager \<Rightarrow> manager) \<Rightarrow> manager \<Rightarrow> manager" where
  "execute key limitInSeconds now lambda s =
     (if now - lastExecution key s \<ge> limitInSeconds * 1000
      then lambda (s\<lparr>executionLimiter := (executionLimiter s)(key \<mapsto> now)\<rparr>)
      else s)"

text \<open>
  Modelled from the spec: \<^verbatim>\<open>ensurePackagerRunning\<close> (\<^verbatim>\<open>common/packagerStatus\<close> is not
  among the sources), the bounded health check of the packager at an address and port;
  it fails with the error it was given when the packager does not answer.
\<close>

definition ensurePackagerRunning ::
  "outcome \<Rightarrow> string \<Rightarrow> int \<Rightarrow> exn \<Rightarrow> manager \<Rightarrow> (exn \<times> manager) + manager" where
  "ensurePackagerRunning out addr prt error s =
     (let s1 = perform (PackagerCheck addr prt) s
      in if packager_running out then Inr s1 else Inl (error, s1))"

text \<open>
  Modelled from the spec: the write of a text to a WebSocket (the \<^verbatim>\<open>ws\<close> module is
  not among the sources). A write to a socket that is not open is a send failure; with
  no socket at all the property access throws.
\<close>

definition socket_send :: "jsval \<Rightarrow> manager \<Rightarrow> exn + manager" where
  "socket_send data s =
     (case socketToApp s of
        None \<Rightarrow> Inl TypeError
      | Some c \<Rightarrow>
          if readyState (sockets s c) = OPEN then Inr (perform (SocketSend c data) s)
          else Inl (Failure ''WebSocket is not open''))"

text \<open>
  Settling a deferred: only a pending promise changes.
\<close>

definition reject :: "nat \<Rightarrow> exn \<Rightarrow> manager \<Rightarrow> manager" where
  "reject c e s =
     (if deferred (sockets s c) = Pending
      then s\<lparr>sockets := (sockets s)(c := (sockets s c)\<lparr>deferred := Rejected e\<rparr>)\<rparr>
      else s)"

definition resolve :: "nat \<Rightarrow> manager \<Rightarrow> manager" where
  "resolve c s =
     (if deferred (sockets s c) = Pending
      then s\<lparr>sockets := (sockets s)(c := (sockets s c)\<lparr>deferred := Resolved\<rparr>)\<rparr>
      else s)"

section \<open>The operations of the manager\<close>

subsection \<open>Sending to the application\<close>

text \<open>
  The \<^verbatim>\<open>try\<close> block of \<^verbatim>\<open>sendMessageToApp\<close>. An exception leaves with the value
  \<^verbatim>\<open>stringified\<close> had when it was thrown and with the effects done so far.
\<close>

definition sendMessageToApp_try ::
  "runtime \<Rightarrow> jsval \<Rightarrow> manager \<Rightarrow> (exn \<times> jsval \<times> manager) + manager" where
  "sendMessageToApp_try rt message s =
     (case JSON_stringify rt message of
        Inl exception \<Rightarrow> Inl (exception, JStr [], s)
      | Inr stringified \<Rightarrow>
          (case ToString (stack_depth rt) stringified of
             Inl exception \<Rightarrow> Inl (exception, stringified, s)
           | Inr shown \<Rightarrow>
               (let s1 = perform (LoggerVerbose (''To RN APP: '' @ shown)) s
                in case socket_send stringified s1 of
                     Inl exception \<Rightarrow> Inl (exception, stringified, s1)
                   | Inr s2 \<Rightarrow> Inr s2)))"

text \<open>
  \<^verbatim>\<open>sendMessageToApp\<close>. The \<^verbatim>\<open>catch\<close> block computes
  \<^verbatim>\<open>stringified || ("" + message)\<close> outside any \<^verbatim>\<open>try\<close>: when \<^verbatim>\<open>stringified\<close> is
  falsy the payload is converted to a string, and an exception of that conversion
  leaves the function (\<open>Inl\<close>).
\<close>

definition sendMessageToApp :: "runtime \<Rightarrow> jsval \<Rightarrow> manager \<Rightarrow> exn + manager" where
  "sendMessageToApp rt message s =
     (case sendMessageToApp_try rt message s of
        Inr s' \<Rightarrow> Inr s'
      | Inl (exception, stringified, s1) \<Rightarrow>
          (case (if truthy stringified then Inr stringified
                 else map_sum id JStr (ToString (stack_depth rt) message)) of
             Inl thrown \<Rightarrow> Inl thrown
           | Inr messageToShow \<Rightarrow>
               Inr (printDebuggingError
                      (InternalError FailedToSendMessageToTheReactNativeApp [messageToShow])
                      exception s1)))"

subsection \<open>Worker lifetimes\<close>

definition killWorker :: "manager \<Rightarrow> manager" where
  "killWorker s =
     (case singleLifetimeWorker s of
        None \<Rightarrow> s
      | Some w \<Rightarrow> (perform (WorkerStop w) s)\<lparr>singleLifetimeWorker := None\<rparr>)"

text \<open>
  \<^verbatim>\<open>startNewWorkerLifetime\<close> up to the call of \<^verbatim>\<open>start()\<close> on the new sandbox; the
  result names the sandbox whose start promise is pending.
\<close>

definition startNewWorkerLifetime :: "manager \<Rightarrow> nat \<times> manager" where
  "startNewWorkerLifetime s =
     (let w = next_handle s;
          s1 = (perform (WorkerCreate w) s)\<lparr>singleLifetimeWorker := Some w, next_handle := w + 1\<rparr>;
          s2 = perform (LoggerVerbose ''A new app worker lifetime was created.'') s1
      in (w, perform (WorkerStart w) s2))"

definition gotPrepareJSRuntime :: "jsval \<Rightarrow> manager \<Rightarrow> manager" where
  "gotPrepareJSRuntime message s =
     (let (w, s1) = startNewWorkerLifetime s
      in s1\<lparr>pending_starts := pending_starts s1 @ [(w, message)]\<rparr>)"

text \<open>
  The continuations of the start promise of sandbox \<open>w\<close>. When it resolves with
  \<open>startedEvent\<close>, the callback of \<^verbatim>\<open>startNewWorkerLifetime\<close> emits \<^verbatim>\<open>connected\<close>
  and the one of \<^verbatim>\<open>gotPrepareJSRuntime\<close> sends the reply; when it is rejected, the
  error callback logs. A promise settles once: the continuation is removed. An \<open>Inl\<close>
  result is an exception thrown out of the callback.
\<close>

definition start_resolved :: "runtime \<Rightarrow> nat \<Rightarrow> jsval \<Rightarrow> manager \<Rightarrow> exn + manager" where
  "start_resolved rt w startedEvent s =
     (case map_of (pending_starts s) w of
        None \<Rightarrow> Inr s
      | Some message \<Rightarrow>
          (let s1 = s\<lparr>pending_starts := filter (\<lambda>p. fst p \<noteq> w) (pending_starts s)\<rparr>;
               s2 = perform (Emit ''connected'' startedEvent) s1
           in case get_prop message ''id'' of
                Inl exception \<Rightarrow> Inl exception
              | Inr i \<Rightarrow>
                  (case parseInt (stack_depth rt) i of
                     Inl exception \<Rightarrow> Inl exception
                   | Inr replyID \<Rightarrow> sendMessageToApp rt (JObj [(''replyID'', replyID)]) s2)))"

definition start_rejected :: "nat \<Rightarrow> exn \<Rightarrow> manager \<Rightarrow> manager" where
  "start_rejected w error s =
     (case map_of (pending_starts s) w of
        None \<Rightarrow> s
      | Some message \<Rightarrow>
          printDebuggingError (InternalError FailedToPrepareJSRuntimeEnvironment [message]) error
            (s\<lparr>pending_starts := filter (\<lambda>p. fst p \<noteq> w) (pending_starts s)\<rparr>))"

subsection \<open>Messages from the packager socket\<close>

text \<open>
  The \<^verbatim>\<open>try\<close> block of \<^verbatim>\<open>onMessage\<close>; an exception leaves with the effects done
  before it.
\<close>

definition onMessage_try :: "runtime \<Rightarrow> string \<Rightarrow> manager \<Rightarrow> (exn \<times> manager) + manager" where
  "onMessage_try rt message s =
     (let s0 = perform (LoggerVerbose (''From RN APP: '' @ message)) s
      in case JSON_parse rt message of
           Inl exception \<Rightarrow> Inl (exception, s0)
         | Inr object \<Rightarrow>
             (case get_prop object ''method'' of
                Inl exception \<Rightarrow> Inl (exception, s0)
              | Inr method \<Rightarrow>
                  if method = JStr ''prepareJSRuntime''
                  then Inr (gotPrepareJSRuntime object (killWorker s0))
                  else if method = JStr ''$disconnected''
                  then Inr (killWorker s0)
                  else if truthy method
                  then (case singleLifetimeWorker s0 of
                          Some w \<Rightarrow> Inr (perform (WorkerPostMessage w object) s0)
                        | None \<Rightarrow> Inr s0)
                  else Inr (perform (LoggerVerbose
                         (''The react-native app sent a message without specifying a method: ''
                           @ message)) s0)))"

definition onMessage :: "runtime \<Rightarrow> string \<Rightarrow> manager \<Rightarrow> exn + manager" where
  "onMessage rt message s =
     (case onMessage_try rt message s of
        Inr s' \<Rightarrow> Inr s'
      | Inl (exception, s1) \<Rightarrow>
          Inr (printDebuggingError
                 (InternalError FailedToProcessMessageFromReactNativeApp [JStr message])
                 exception s1))"

text \<open>
  The messages of one connection, in the order they arrive; an exception out of the
  handler would end the run.
\<close>

fun process_messages :: "runtime \<Rightarrow> string list \<Rightarrow> manager \<Rightarrow> exn + manager" where
  "process_messages rt [] s = Inr s"
| "process_messages rt (m # ms) s =
     (case onMessage rt m s of Inl e \<Rightarrow> Inl e | Inr s' \<Rightarrow> process_messages rt ms s')"

subsection \<open>Starting and stopping\<close>

definition scriptToRunPath :: "runtime \<Rightarrow> manager \<Rightarrow> string" where
  "scriptToRunPath rt s = path_resolve rt (sourcesStoragePath s) (DEBUGGER_WORKER_FILENAME rt)"

text \<open>
  \<^verbatim>\<open>downloadAndPatchDebuggerWorker\<close>: the download, the read of the downloaded file, the
  composition of the bootstrap script and its write, each step only after the one before
  succeeded. Reading a file that is not there fails.
\<close>

definition downloadAndPatchDebuggerWorker ::
  "runtime \<Rightarrow> outcome \<Rightarrow> manager \<Rightarrow> (exn \<times> manager) + manager" where
  "downloadAndPatchDebuggerWorker rt out s =
     (let path = scriptToRunPath rt s;
          s1 = perform DownloadDebuggerWorker s
      in case downloadDebuggerWorker out (files s1) of
           Inl error \<Rightarrow> Inl (error, s1)
         | Inr downloaded \<Rightarrow>
             (let s2 = perform (ReadFile path) (s1\<lparr>files := downloaded\<rparr>)
              in case files s2 path of
                   None \<Rightarrow> Inl (Failure ''ENOENT'', s2)
                 | Some workerContent \<Rightarrow>
                     (let content =
                            modifiedDebuggeeContent (isHaulProject rt (projectRootPath s2)) workerContent
                      in Inr ((perform (WriteFile path content) s2)
                                \<lparr>files := (files s2)(path \<mapsto> content)\<rparr>))))"

definition debuggerProxyUrl :: "manager \<Rightarrow> string" where
  "debuggerProxyUrl s =
     ''ws://'' @ packagerAddress s @ '':'' @ Number_toString (packagerPort s)
       @ ''/debugger-proxy?role=debugger&name=vscode''"

text \<open>
  \<^verbatim>\<open>createSocketToApp\<close>: a new socket, connecting, with the four handlers registered,
  becomes the manager's socket; the result names it, and with it the pending promise
  that the call returns.
\<close>

definition createSocketToApp :: "bool \<Rightarrow> manager \<Rightarrow> nat \<times> manager" where
  "createSocketToApp retry s =
     (let c = next_handle s;
          s1 = perform (SocketCreate c (debuggerProxyUrl s)) s
      in (c, s1\<lparr>socketToApp := Some c,
                sockets := (sockets s1)(c := \<lparr>readyState = CONNECTING, closeMessage = [],
                                              listeners = True, retryAttempt = retry,
                                              deferred = Pending\<rparr>),
                next_handle := c + 1\<rparr>))"

text \<open>
  \<^verbatim>\<open>start\<close>: the chain of promises run to the point where the socket exists. \<open>Inl e\<close>
  is a promise rejected with \<open>e\<close>; \<open>Inr c\<close> is the promise of the deferred of socket \<open>c\<close>.
\<close>

definition start :: "runtime \<Rightarrow> outcome \<Rightarrow> bool \<Rightarrow> manager \<Rightarrow> (exn + nat) \<times> manager" where
  "start rt out retry s =
     (let errPackagerNotRunning =
            InternalError CannotAttachToPackagerCheckPackagerRunningOnPort [JNum (packagerPort s)]
      in case ensurePackagerRunning out (packagerAddress s) (packagerPort s) errPackagerNotRunning s of
           Inl (error, s1) \<Rightarrow> (Inl error, s1)
         | Inr s1 \<Rightarrow>
             (case (if retry then Inr s1 else downloadAndPatchDebuggerWorker rt out s1) of
                Inl (error, s2) \<Rightarrow> (Inl error, s2)
              | Inr s2 \<Rightarrow> (let (c, s3) = createSocketToApp retry s2 in (Inr c, s3))))"

text \<open>
  \<^verbatim>\<open>close()\<close> on a socket starts the closing handshake unless the socket is closed
  already.
\<close>

definition ws_close :: "socket \<Rightarrow> socket" where
  "ws_close k = (if readyState k = CLOSED then k else k\<lparr>readyState := CLOSING\<rparr>)"

definition stop :: "manager \<Rightarrow> manager" where
  "stop s =
     (let s1 = (case socketToApp s of
                  None \<Rightarrow> s
                | Some c \<Rightarrow>
                    (let sa = perform (SocketRemoveAllListeners c) s;
                         sb = sa\<lparr>sockets := (sockets sa)(c := (sockets sa c)\<lparr>listeners := False\<rparr>)\<rparr>;
                         sc = perform (SocketClose c) sb
                     in sc\<lparr>sockets := (sockets sc)(c := ws_close (sockets sc c))\<rparr>))
      in case singleLifetimeWorker s1 of
           None \<Rightarrow> s1
         | Some w \<Rightarrow> perform (WorkerStop w) s1)"

subsection \<open>The handlers of the packager socket\<close>

definition onSocketOpened :: "int \<Rightarrow> manager \<Rightarrow> manager" where
  "onSocketOpened now s =
     execute ''onSocketOpened.msg'' 10 now
       (perform (LoggerLog
          ''Established a connection with the Proxy (Packager) to the React Native application''))
       s"

text \<open>
  The \<^verbatim>\<open>close\<close> handler registered for socket \<open>c\<close>. It compares the close message of
  the socket the manager holds at that time and rejects the deferred of its own
  \<^verbatim>\<open>createSocketToApp\<close> call; the handler exists only after that call stored a socket.
\<close>

definition current_closeMessage :: "manager \<Rightarrow> string option" where
  "current_closeMessage s = map_option (\<lambda>k. closeMessage (sockets s k)) (socketToApp s)"

definition on_close :: "nat \<Rightarrow> int \<Rightarrow> manager \<Rightarrow> manager" where
  "on_close c now s =
     (let s1 = execute ''onSocketClose.msg'' 10 now
                 (\<lambda>s. let s' = (if current_closeMessage s
                                     = Some ''Another debugger is already connected''
                                  then reject c (InternalError AnotherDebuggerConnectedToPackager []) s
                                  else s)
                       in perform (LoggerLog
                            ''Disconnected from the Proxy (Packager) to the React Native application. Retrying reconnection soon...'')
                            s')
                 s
      in perform (SetTimeout 100 True) s1)"

definition on_error :: "nat \<Rightarrow> exn \<Rightarrow> manager \<Rightarrow> manager" where
  "on_error c error s =
     (let s1 = (if retryAttempt (sockets s c)
                then printDebuggingError
                       (InternalError ReconnectionToPackagerFailedCheckForErrorsOrRestartReactNative [])
                       error s
                else s)
      in reject c error s1)"

text \<open>
  The callback of the timer that the \<^verbatim>\<open>close\<close> handler sets: \<^verbatim>\<open>this.start(true)\<close>,
  whose promise nobody keeps.
\<close>

definition timer_fired :: "runtime \<Rightarrow> outcome \<Rightarrow> manager \<Rightarrow> exn + manager" where
  "timer_fired rt out s = Inr (snd (start rt out True s))"

text \<open>
  What the socket does, as the manager sees it: it opens, it closes with a reason (which
  it records as its close message), a message arrives, it fails, or the 300 ms that
  \<^verbatim>\<open>createSocketToApp\<close> waits before resolving have passed. A socket whose listeners
  were removed calls no handler.
\<close>

datatype socket_event =
    Opened int
  | Closed string int
  | Message string
  | Errored exn
  | Delayed

fun socket_emit :: "runtime \<Rightarrow> nat \<Rightarrow> socket_event \<Rightarrow> manager \<Rightarrow> exn + manager" where
  "socket_emit rt c (Opened now) s =
     (let s1 = s\<lparr>sockets := (sockets s)(c := (sockets s c)\<lparr>readyState := OPEN\<rparr>)\<rparr>
      in Inr (if listeners (sockets s c) then onSocketOpened now s1 else s1))"
| "socket_emit rt c (Closed reason now) s =
     (let s1 = s\<lparr>sockets := (sockets s)(c := (sockets s c)\<lparr>readyState := CLOSED,
                                                                    closeMessage := reason\<rparr>)\<rparr>
      in Inr (if listeners (sockets s c) then on_close c now s1 else s1))"
| "socket_emit rt c (Message m) s =
     (if listeners (sockets s c) then onMessage rt m s else Inr s)"
| "socket_emit rt c (Errored e) s =
     Inr (if listeners (sockets s c) then on_error c e s else s)"
| "socket_emit rt c Delayed s = Inr (resolve c s)"

section \<open>Notions used in the properties\<close>

subsection \<open>Live lifetimes\<close>

text \<open>
  A lifetime is live from the creation of its sandbox to the call of its \<^verbatim>\<open>stop()\<close>.
  \<open>live_lifetimes\<close> reads the live ones off the effects; \<open>at_most_one_from\<close> says that
  at no point of a sequence of effects two were live.
\<close>

fun live_after :: "nat list \<Rightarrow> effect \<Rightarrow> nat list" where
  "live_after ws (WorkerCreate w) = w # ws"
| "live_after ws (WorkerStop w) = removeAll w ws"
| "live_after ws e = ws"

definition live_lifetimes :: "effect list \<Rightarrow> nat list" where
  "live_lifetimes tr = foldl live_after [] tr"

fun at_most_one_from :: "nat list \<Rightarrow> effect list \<Rightarrow> bool" where
  "at_most_one_from ws [] = (length ws \<le> 1)"
| "at_most_one_from ws (e # es) = (length ws \<le> 1 \<and> at_most_one_from (live_after ws e) es)"

text \<open>
  The invariant of the manager: never two live lifetimes so far, a live one is the one
  the manager holds, and the handle it holds is not free.
\<close>

definition one_lifetime :: "manager \<Rightarrow> bool" where
  "one_lifetime s \<longleftrightarrow>
     at_most_one_from [] (trace s)
     \<and> (case singleLifetimeWorker s of
          None \<Rightarrow> live_lifetimes (trace s) = []
        | Some w \<Rightarrow> set (live_lifetimes (trace s)) \<subseteq> {w} \<and> w < next_handle s)"

subsection \<open>Timers, storage, teardown\<close>

fun scheduled :: "effect list \<Rightarrow> (nat \<times> bool) list" where
  "scheduled [] = []"
| "scheduled (SetTimeout d r # es) = (d, r) # scheduled es"
| "scheduled (e # es) = scheduled es"

fun touches_script :: "effect \<Rightarrow> bool" where
  "touches_script DownloadDebuggerWorker = True"
| "touches_script (ReadFile p) = True"
| "touches_script (WriteFile p t) = True"
| "touches_script e = False"

text \<open>
  The calls that one \<^verbatim>\<open>stop()\<close> makes on the objects the manager holds.
\<close>

definition teardown_calls :: "manager \<Rightarrow> effect list" where
  "teardown_calls s =
     (case socketToApp s of None \<Rightarrow> [] | Some c \<Rightarrow> [SocketRemoveAllListeners c, SocketClose c])
     @ (case singleLifetimeWorker s of None \<Rightarrow> [] | Some w \<Rightarrow> [WorkerStop w])"

subsection \<open>The bootstrap script in the words of the specification\<close>

text \<open>
  The specification's composition: the texts joined by newlines, the fetch stub among
  them if and only if the project is a Haul project.
\<close>

definition bootstrap_as_specified :: "bool \<Rightarrow> string \<Rightarrow> string" where
  "bootstrap_as_specified isHaul workerContent =
     join_strings ''\<newline>''
       ([WORKER_BOOTSTRAP, CONSOLE_TRACE_PATCH, NODE_PROCESS_FINDING_PATCH]
        @ (if isHaul then [FETCH_STUB] else [])
        @ [workerContent, WORKER_DONE])"

subsection \<open>A concrete session\<close>

text \<open>
  A runtime that parses the few texts of the examples and serialises as
  \<^verbatim>\<open>JSON.stringify\<close> does, with a call stack that allows 10000 levels of nesting; a
  manager as the constructor makes it for port 8081, the same manager connected by
  socket 0, the connected manager after a first \<^verbatim>\<open>prepareJSRuntime\<close>, the manager
  right after its first \<^verbatim>\<open>start()\<close>, the objects of some packager messages, and
  arrays and objects nested to a given depth.
\<close>

definition hex_digit :: "nat \<Rightarrow> char" where
  "hex_digit n = ''0123456789abcdef'' ! n"

definition escape :: "char \<Rightarrow> string" where
  "escape c =
     (if c = CHR 0x22 then [CHR 0x5C, CHR 0x22]
      else if c = CHR 0x5C then [CHR 0x5C, CHR 0x5C]
      else if c = CHR 0x08 then [CHR 0x5C, CHR ''b'']
      else if c = CHR 0x09 then [CHR 0x5C, CHR ''t'']
      else if c = CHR 0x0A then [CHR 0x5C, CHR ''n'']
      else if c = CHR 0x0C then [CHR 0x5C, CHR ''f'']
      else if c = CHR 0x0D then [CHR 0x5C, CHR ''r'']
      else if (of_char c :: nat) < 32
      then [CHR 0x5C, CHR ''u'', CHR ''0'', CHR ''0'',
            hex_digit (of_char c div 16), hex_digit (of_char c mod 16)]
      else [c])"

definition quote :: "string \<Rightarrow> string" where
  "quote s = CHR 0x22 # concat (map escape s) @ [CHR 0x22]"

fun json_text :: "jsval \<Rightarrow> string"
  and json_elements :: "jsval list \<Rightarrow> string list"
  and json_members :: "(string \<times> jsval) list \<Rightarrow> string list" where
  "json_text JUndefined = ''null''"
| "json_text JNull = ''null''"
| "json_text (JBool b) = (if b then ''true'' else ''false'')"
| "json_text (JNum n) = Number_toString n"
| "json_text JNaN = ''null''"
| "json_text (JStr s) = quote s"
| "json_text (JArr xs) = ''['' @ join_strings '','' (json_elements xs) @ '']''"
| "json_text (JObj kvs) = ''{'' @ join_strings '','' (json_members kvs) @ ''}''"
| "json_elements [] = []"
| "json_elements (x # xs) = json_text x # json_elements xs"
| "json_members [] = []"
| "json_members ((k, v) # kvs) =
     (if v = JUndefined then json_members kvs
      else (quote k @ '':'' @ json_text v) # json_members kvs)"

fun nesting :: "jsval \<Rightarrow> nat"
  and nesting_elements :: "jsval list \<Rightarrow> nat"
  and nesting_members :: "(string \<times> jsval) list \<Rightarrow> nat" where
  "nesting (JArr xs) = Suc (nesting_elements xs)"
| "nesting (JObj kvs) = Suc (nesting_members kvs)"
| "nesting JUndefined = 0"
| "nesting JNull = 0"
| "nesting (JBool b) = 0"
| "nesting (JNum n) = 0"
| "nesting JNaN = 0"
| "nesting (JStr s) = 0"
| "nesting_elements [] = 0"
| "nesting_elements (x # xs) = max (nesting x) (nesting_elements xs)"
| "nesting_members [] = 0"
| "nesting_members ((k, v) # kvs) = max (nesting v) (nesting_members kvs)"

fun nested_array :: "nat \<Rightarrow> jsval" where
  "nested_array 0 = JArr []"
| "nested_array (Suc n) = JArr [nested_array n]"

fun nested_object :: "nat \<Rightarrow> jsval" where
  "nested_object 0 = JObj []"
| "nested_object (Suc n) = JObj [(''a'', nested_object n)]"

definition prepare42 :: jsval where
  "prepare42 = JObj [(''method'', JStr ''prepareJSRuntime''), (''id'', JNum 42)]"

definition prepare43 :: jsval where
  "prepare43 = JObj [(''method'', JStr ''prepareJSRuntime''), (''id'', JNum 43)]"

definition prepare_huge :: jsval where
  "prepare_huge = JObj [(''method'', JStr ''prepareJSRuntime''), (''id'', JNum (10 ^ 21))]"

definition execute_script :: jsval where
  "execute_script = JObj [(''method'', JStr ''executeApplicationScript''), (''id'', JNum 7)]"

definition example_parse :: "string \<Rightarrow> exn + jsval" where
  \<open>example_parse m =
     (if m = ''{"method":"prepareJSRuntime","id":42}'' then Inr prepare42
      else if m = ''{"method":"prepareJSRuntime","id":43}'' then Inr prepare43
      else if m = ''{"method":"prepareJSRuntime","id":1e21}'' then Inr prepare_huge
      else if m = ''{"method":"$disconnected"}'' then Inr (JObj [(''method'', JStr ''$disconnected'')])
      else if m = ''{"method":"executeApplicationScript","id":7}'' then Inr execute_script
      else if m = ''{"method":""}'' then Inr (JObj [(''method'', JStr [])])
      else if m = ''{"id":7}'' then Inr (JObj [(''id'', JNum 7)])
      else if m = ''null'' then Inr JNull
      else Inl SyntaxError)\<close>

definition example_stringify :: "jsval \<Rightarrow> exn + jsval" where
  "example_stringify v =
     (if 10000 < nesting v then Inl RangeError
      else if v = JUndefined then Inr JUndefined
      else Inr (JStr (json_text v)))"

definition example_runtime :: runtime where
  "example_runtime =
     \<lparr>JSON_parse = example_parse,
      JSON_stringify = example_stringify,
      stack_depth = 10000,
      path_resolve = (\<lambda>dir name. dir @ ''/'' @ name),
      DEBUGGER_WORKER_FILENAME = ''debuggerWorker.js'',
      isHaulProject = (\<lambda>root. False)\<rparr>"

definition example_manager :: manager where
  "example_manager =
     \<lparr>packagerAddress = ''localhost'',
      packagerPort = 8081,
      sourcesStoragePath = ''/project/.vscode/.react'',
      projectRootPath = ''/project'',
      socketToApp = None,
      singleLifetimeWorker = None,
      executionLimiter = Map.empty,
      sockets = (\<lambda>c. \<lparr>readyState = CLOSED, closeMessage = [], listeners = False,
                         retryAttempt = False, deferred = Pending\<rparr>),
      pending_starts = [],
      files = Map.empty,
      next_handle = 0,
      trace = []\<rparr>"

definition example_outcome :: outcome where
  "example_outcome =
     \<lparr>packager_running = True,
      downloadDebuggerWorker =
        (\<lambda>fs. Inr (fs(''/project/.vscode/.react/debuggerWorker.js'' \<mapsto> ''onmessage = null;'')))\<rparr>"

definition example_connected :: manager where
  "example_connected =
     example_manager
       \<lparr>socketToApp := Some 0,
        sockets := (sockets example_manager)
          (0 := \<lparr>readyState = OPEN, closeMessage = [], listeners = True,
                  retryAttempt = False, deferred = Resolved\<rparr>),
        next_handle := 1,
        trace := [PackagerCheck ''localhost'' 8081,
                  SocketCreate 0 ''ws://localhost:8081/debugger-proxy?role=debugger&name=vscode'']\<rparr>"

definition example_running :: manager where
  \<open>example_running =
     example_connected
       \<lparr>singleLifetimeWorker := Some 1,
        pending_starts := [(1, prepare42)],
        next_handle := 2,
        trace := trace example_connected @
          [LoggerVerbose ''From RN APP: {"method":"prepareJSRuntime","id":42}'',
           WorkerCreate 1,
           LoggerVerbose ''A new app worker lifetime was created.'',
           WorkerStart 1]\<rparr>\<close>

definition example_started :: manager where
  "example_started = snd (start example_runtime example_outcome False example_manager)"

text \<open>
  The promise that the \<^verbatim>\<open>createSocketToApp\<close> call that made socket \<open>c\<close> returned.
\<close>

definition promise_of :: "nat \<Rightarrow> manager \<Rightarrow> promise" where
  "promise_of c s = deferred (sockets s c)"

text \<open>
  One handler after another, as the event loop runs them; an exception ends the run.
\<close>

definition and_then :: "exn + manager \<Rightarrow> (manager \<Rightarrow> exn + manager) \<Rightarrow> exn + manager" where
  "and_then r f = (case r of Inl e \<Rightarrow> Inl e | Inr s \<Rightarrow> f s)"

section \<open>Proofs\<close>

subsection \<open>Effects of the small steps\<close>

lemma perform_fields [simp]:
  "trace (perform e s) = trace s @ [e]"
  "socketToApp (perform e s) = socketToApp s"
  "singleLifetimeWorker (perform e s) = singleLifetimeWorker s"
  "executionLimiter (perform e s) = executionLimiter s"
  "sockets (perform e s) = sockets s"
  "pending_starts (perform e s) = pending_starts s"
  "files (perform e s) = files s"
  "next_handle (perform e s) = next_handle s"
  "packagerAddress (perform e s) = packagerAddress s"
  "packagerPort (perform e s) = packagerPort s"
  "sourcesStoragePath (perform e s) = sourcesStoragePath s"
  "projectRootPath (perform e s) = projectRootPath s"
  by (simp_all add: perform_def)

lemma onMessage_returns: "\<exists>s'. onMessage rt m s = Inr s'"
  by (auto simp: onMessage_def split: sum.splits prod.splits)

subsection \<open>Malformed messages\<close>

text \<open>
  C7. A message that \<^verbatim>\<open>JSON.parse\<close> rejects is logged with its text and dropped: the
  handler returns normally, nothing but the two log lines is added to the state, and the
  messages after it are processed from there. No message makes the handler throw.
\<close>

theorem malformed_message_is_dropped:
  "JSON_parse rt message = Inl exception \<Longrightarrow>
     onMessage rt message s =
       Inr (s\<lparr>trace := trace s @
                [LoggerVerbose (''From RN APP: '' @ message),
                 LoggerError (NestedError
                   (InternalError FailedToProcessMessageFromReactNativeApp [JStr message])
                   DebuggingWontWorkReloadJSAndReconnect exception)]\<rparr>)
     \<and> process_messages rt (message # rest) s =
         process_messages rt rest
           (s\<lparr>trace := trace s @
                [LoggerVerbose (''From RN APP: '' @ message),
                 LoggerError (NestedError
                   (InternalError FailedToProcessMessageFromReactNativeApp [JStr message])
                   DebuggingWontWorkReloadJSAndReconnect exception)]\<rparr>)
     \<and> (\<forall>m s0. \<exists>s'. onMessage rt m s0 = Inr s')"
proof (intro conjI)
  assume parse: "JSON_parse rt message = Inl exception"
  then show first: "onMessage rt message s =
       Inr (s\<lparr>trace := trace s @
                [LoggerVerbose (''From RN APP: '' @ message),
                 LoggerError (NestedError
                   (InternalError FailedToProcessMessageFromReactNativeApp [JStr message])
                   DebuggingWontWorkReloadJSAndReconnect exception)]\<rparr>)"
    by (simp add: onMessage_def onMessage_try_def printDebuggingError_def perform_def)
  then show "process_messages rt (message # rest) s =
         process_messages rt rest
           (s\<lparr>trace := trace s @
                [LoggerVerbose (''From RN APP: '' @ message),
                 LoggerError (NestedError
                   (InternalError FailedToProcessMessageFromReactNativeApp [JStr message])
                   DebuggingWontWorkReloadJSAndReconnect exception)]\<rparr>)"
    by simp
  show "\<forall>m s0. \<exists>s'. onMessage rt m s0 = Inr s'"
    using onMessage_returns by blast
qed

theorem malformed_message_is_dropped_witness:
  "JSON_parse example_runtime ''{oops'' = Inl SyntaxError
   \<and> onMessage example_runtime ''{oops'' example_manager =
       Inr (example_manager\<lparr>trace :=
              [LoggerVerbose ''From RN APP: {oops'',
               LoggerError (NestedError
                 (InternalError FailedToProcessMessageFromReactNativeApp [JStr ''{oops''])
                 DebuggingWontWorkReloadJSAndReconnect SyntaxError)]\<rparr>)"
proof -
  have h: "JSON_parse example_runtime ''{oops'' = Inl SyntaxError"
    by (simp add: example_runtime_def example_parse_def)
  have "trace example_manager = []" by (simp add: example_manager_def)
  with malformed_message_is_dropped[OF h, of example_manager "[]"] h show ?thesis by simp
qed

subsection \<open>At most one lifetime\<close>

lemma at_most_one_from_append:
  "at_most_one_from ws (xs @ ys) \<longleftrightarrow>
     at_most_one_from ws xs \<and> at_most_one_from (foldl live_after ws xs) ys"
proof (induction xs arbitrary: ws)
  case Nil
  show ?case by (cases ys) auto
next
  case (Cons x xs)
  then show ?case by auto
qed

lemma at_most_one_from_take:
  "at_most_one_from ws es \<longleftrightarrow> (\<forall>n\<le>length es. length (foldl live_after ws (take n es)) \<le> 1)"
proof (induction es arbitrary: ws)
  case Nil
  then show ?case by simp
next
  case (Cons e es)
  show ?case
  proof
    assume a: "at_most_one_from ws (e # es)"
    show "\<forall>n\<le>length (e # es). length (foldl live_after ws (take n (e # es))) \<le> 1"
    proof (intro allI impI)
      fix n assume "n \<le> length (e # es)"
      then show "length (foldl live_after ws (take n (e # es))) \<le> 1"
        using a Cons.IH[of "live_after ws e"] by (cases n) auto
    qed
  next
    assume a: "\<forall>n\<le>length (e # es). length (foldl live_after ws (take n (e # es))) \<le> 1"
    have "length ws \<le> 1" using a[rule_format, of 0] by simp
    moreover have "\<forall>n\<le>length es. length (foldl live_after (live_after ws e) (take n es)) \<le> 1"
    proof (intro allI impI)
      fix n assume "n \<le> length es"
      then show "length (foldl live_after (live_after ws e) (take n es)) \<le> 1"
        using a[rule_format, of "Suc n"] by simp
    qed
    ultimately show "at_most_one_from ws (e # es)" using Cons.IH[of "live_after ws e"] by simp
  qed
qed

lemma never_two_live:
  "at_most_one_from [] tr \<longleftrightarrow> (\<forall>n\<le>length tr. length (live_lifetimes (take n tr)) \<le> 1)"
  by (simp add: at_most_one_from_take live_lifetimes_def)

lemma live_lifetimes_append:
  "live_lifetimes (tr @ es) = foldl live_after (live_lifetimes tr) es"
  by (simp add: live_lifetimes_def)

lemma live_subset_cases:
  "length ws \<le> 1 \<Longrightarrow> set ws \<subseteq> {w} \<Longrightarrow> ws = [] \<or> ws = [w]"
  by (cases ws) auto

lemma onMessage_one_lifetime:
  assumes "one_lifetime s" and "onMessage rt m s = Inr s'"
  shows "one_lifetime s'"
proof -
  have len: "length (live_lifetimes (trace s)) \<le> 1"
    using assms(1) never_two_live[of "trace s"] by (auto simp: one_lifetime_def)
  show ?thesis
  proof (cases "singleLifetimeWorker s")
    case None
    with assms show ?thesis
      by (auto simp: one_lifetime_def onMessage_def onMessage_try_def killWorker_def
          gotPrepareJSRuntime_def startNewWorkerLifetime_def perform_def printDebuggingError_def
          at_most_one_from_append live_lifetimes_append live_lifetimes_def[symmetric] Let_def
          split: sum.splits prod.splits if_splits)
  next
    case (Some w)
    with assms(1) have "set (live_lifetimes (trace s)) \<subseteq> {w}"
      by (simp add: one_lifetime_def)
    from live_subset_cases[OF len this] assms Some show ?thesis
      by (auto simp: one_lifetime_def onMessage_def onMessage_try_def killWorker_def
          gotPrepareJSRuntime_def startNewWorkerLifetime_def perform_def printDebuggingError_def
          at_most_one_from_append live_lifetimes_append live_lifetimes_def[symmetric] Let_def
          split: sum.splits prod.splits if_splits)
  qed
qed

lemma process_messages_one_lifetime:
  "one_lifetime s \<Longrightarrow> \<exists>s'. process_messages rt ms s = Inr s' \<and> one_lifetime s'"
proof (induction ms arbitrary: s)
  case Nil
  then show ?case by simp
next
  case (Cons m ms)
  obtain s1 where s1: "onMessage rt m s = Inr s1" using onMessage_returns by blast
  with Cons.prems have "one_lifetime s1" by (rule onMessage_one_lifetime)
  from Cons.IH[OF this] s1 show ?case by simp
qed

lemma prepareJSRuntime_steps:
  assumes "JSON_parse rt m = Inr object"
    and "get_prop object ''method'' = Inr (JStr ''prepareJSRuntime'')"
  shows "onMessage rt m s =
      Inr (s\<lparr>singleLifetimeWorker := Some (next_handle s),
             next_handle := next_handle s + 1,
             pending_starts := pending_starts s @ [(next_handle s, object)],
             trace := trace s
               @ [LoggerVerbose (''From RN APP: '' @ m)]
               @ (case singleLifetimeWorker s of None \<Rightarrow> [] | Some w \<Rightarrow> [WorkerStop w])
               @ [WorkerCreate (next_handle s),
                  LoggerVerbose ''A new app worker lifetime was created.'',
                  WorkerStart (next_handle s)]\<rparr>)"
  using assms
  by (simp add: onMessage_def onMessage_try_def killWorker_def gotPrepareJSRuntime_def
      startNewWorkerLifetime_def perform_def Let_def split: option.splits)

text \<open>
  C1. From a state that satisfies the invariant (the state the constructor makes does),
  any sequence of packager messages is processed to the end and leaves the invariant in
  place: at every point of the effects so far at most one lifetime is live. A
  \<^verbatim>\<open>prepareJSRuntime\<close> message that finds a lifetime \<open>w\<close> calls its \<^verbatim>\<open>stop()\<close> first,
  then creates and starts the new sandbox, a different one, which the manager holds
  afterwards.
\<close>

theorem at_most_one_lifetime:
  "one_lifetime s \<Longrightarrow>
     (\<exists>s'. process_messages rt ms s = Inr s' \<and> one_lifetime s'
        \<and> (\<forall>n\<le>length (trace s'). length (live_lifetimes (take n (trace s'))) \<le> 1))
     \<and> (\<forall>m object w. JSON_parse rt m = Inr object
           \<longrightarrow> get_prop object ''method'' = Inr (JStr ''prepareJSRuntime'')
           \<longrightarrow> singleLifetimeWorker s = Some w
           \<longrightarrow> (\<exists>s'. onMessage rt m s = Inr s'
                  \<and> trace s' = trace s @
                      [LoggerVerbose (''From RN APP: '' @ m),
                       WorkerStop w,
                       WorkerCreate (next_handle s),
                       LoggerVerbose ''A new app worker lifetime was created.'',
                       WorkerStart (next_handle s)]
                  \<and> singleLifetimeWorker s' = Some (next_handle s)
                  \<and> w \<noteq> next_handle s))"
proof (intro conjI allI impI)
  assume inv: "one_lifetime s"
  from process_messages_one_lifetime[OF inv, of rt ms]
  obtain s' where s': "process_messages rt ms s = Inr s'" "one_lifetime s'" by blast
  from s'(2) have "\<forall>n\<le>length (trace s'). length (live_lifetimes (take n (trace s'))) \<le> 1"
    using never_two_live[of "trace s'"] by (simp add: one_lifetime_def)
  with s' show "\<exists>s'. process_messages rt ms s = Inr s' \<and> one_lifetime s'
        \<and> (\<forall>n\<le>length (trace s'). length (live_lifetimes (take n (trace s'))) \<le> 1)"
    by blast
next
  fix m object w
  assume inv: "one_lifetime s"
    and parse: "JSON_parse rt m = Inr object"
    and meth: "get_prop object ''method'' = Inr (JStr ''prepareJSRuntime'')"
    and held: "singleLifetimeWorker s = Some w"
  from inv held have "w < next_handle s" by (simp add: one_lifetime_def)
  with prepareJSRuntime_steps[OF parse meth, of s] held
  show "\<exists>s'. onMessage rt m s = Inr s'
          \<and> trace s' = trace s @
              [LoggerVerbose (''From RN APP: '' @ m),
               WorkerStop w,
               WorkerCreate (next_handle s),
               LoggerVerbose ''A new app worker lifetime was created.'',
               WorkerStart (next_handle s)]
          \<and> singleLifetimeWorker s' = Some (next_handle s)
          \<and> w \<noteq> next_handle s"
    by simp
qed

lemma example_parse_prepare42:
  \<open>JSON_parse example_runtime ''{"method":"prepareJSRuntime","id":42}'' = Inr prepare42\<close>
  by (simp add: example_runtime_def example_parse_def)

lemma example_parse_prepare43:
  \<open>JSON_parse example_runtime ''{"method":"prepareJSRuntime","id":43}'' = Inr prepare43\<close>
  by (simp add: example_runtime_def example_parse_def)

lemma prepare_method:
  "get_prop prepare42 ''method'' = Inr (JStr ''prepareJSRuntime'')"
  "get_prop prepare43 ''method'' = Inr (JStr ''prepareJSRuntime'')"
  by (simp_all add: prepare42_def prepare43_def)

lemma one_lifetime_example: "one_lifetime example_manager"
  by (simp add: one_lifetime_def example_manager_def live_lifetimes_def)

theorem at_most_one_lifetime_witness:
  \<open>one_lifetime example_manager
   \<and> (\<exists>s'. process_messages example_runtime
              [''{"method":"prepareJSRuntime","id":42}'', ''{"method":"prepareJSRuntime","id":43}'']
              example_manager = Inr s'
          \<and> live_lifetimes (trace s') = [1]
          \<and> length (live_lifetimes (trace s')) \<le> 1)\<close>
proof -
  let ?ms = \<open>[''{"method":"prepareJSRuntime","id":42}'', ''{"method":"prepareJSRuntime","id":43}'']\<close>
  from at_most_one_lifetime[OF one_lifetime_example, of example_runtime ?ms]
  obtain s' where s': "process_messages example_runtime ?ms example_manager = Inr s'"
    and bound: "\<forall>n\<le>length (trace s'). length (live_lifetimes (take n (trace s'))) \<le> 1"
    by blast
  from bound have len: "length (live_lifetimes (trace s')) \<le> 1" by auto
  have "process_messages example_runtime ?ms example_manager =
      Inr (example_manager\<lparr>singleLifetimeWorker := Some 1, next_handle := 2,
             pending_starts := [(0, prepare42), (1, prepare43)],
             trace := [LoggerVerbose (''From RN APP: '' @ hd ?ms),
                       WorkerCreate 0,
                       LoggerVerbose ''A new app worker lifetime was created.'',
                       WorkerStart 0,
                       LoggerVerbose (''From RN APP: '' @ hd (tl ?ms)),
                       WorkerStop 0,
                       WorkerCreate 1,
                       LoggerVerbose ''A new app worker lifetime was created.'',
                       WorkerStart 1]\<rparr>)"
    by (simp add: prepareJSRuntime_steps[OF example_parse_prepare42 prepare_method(1)]
        prepareJSRuntime_steps[OF example_parse_prepare43 prepare_method(2)]
        example_manager_def)
  with s' have "live_lifetimes (trace s') = [1]"
    by (auto simp: live_lifetimes_def)
  with s' len one_lifetime_example show ?thesis by blast
qed

subsection \<open>Printing an integer and reading it back\<close>













lemma decimal_numeral:
  "decimal (numeral k) =
     (if (numeral k :: nat) < 10 then [digit_char (numeral k)]
      else decimal (numeral k div 10) @ [digit_char (numeral k mod 10)])"
  by (rule decimal.simps)

lemma decimal_digit: "n < 10 \<Longrightarrow> decimal n = [digit_char n]"
  by (subst decimal.simps) simp

lemma digit_char_values:
  "digit_char 0 = CHR ''0''" "digit_char (Suc 0) = CHR ''1''" "digit_char 2 = CHR ''2''"
  "digit_char 3 = CHR ''3''" "digit_char 4 = CHR ''4''" "digit_char 5 = CHR ''5''"
  "digit_char 6 = CHR ''6''" "digit_char 7 = CHR ''7''" "digit_char 8 = CHR ''8''"
  "digit_char 9 = CHR ''9''"
  by (simp_all add: digit_char_def char_of_def bit_0)

lemma Number_toString_42: "Number_toString 42 = ''42''"
  by (simp add: Number_toString_def decimal_numeral digit_char_values)



subsection \<open>Other messages\<close>

text \<open>
  C6, as the code has it. A parsed message whose \<^verbatim>\<open>method\<close> is truthy and neither
  \<^verbatim>\<open>prepareJSRuntime\<close> nor \<^verbatim>\<open>$disconnected\<close> is posted unchanged to the lifetime the
  manager holds, and dropped with nothing but the incoming log line when it holds none.
  A parsed message other than \<^verbatim>\<open>null\<close> whose \<^verbatim>\<open>method\<close> is missing or falsy is
  logged at the verbose level and ignored.
\<close>

theorem other_messages_forwarded_or_ignored:
  "JSON_parse rt m = Inr object \<Longrightarrow> get_prop object ''method'' = Inr method \<Longrightarrow>
   method \<noteq> JStr ''prepareJSRuntime'' \<Longrightarrow> method \<noteq> JStr ''$disconnected'' \<Longrightarrow>
     (truthy method \<longrightarrow>
        onMessage rt m s =
          Inr (s\<lparr>trace := trace s @ LoggerVerbose (''From RN APP: '' @ m)
                 # (case singleLifetimeWorker s of
                      None \<Rightarrow> []
                    | Some w \<Rightarrow> [WorkerPostMessage w object])\<rparr>))
     \<and> (\<not> truthy method \<longrightarrow>
        onMessage rt m s =
          Inr (s\<lparr>trace := trace s @
                 [LoggerVerbose (''From RN APP: '' @ m),
                  LoggerVerbose
                    (''The react-native app sent a message without specifying a method: '' @ m)]\<rparr>))"
proof (intro conjI impI)
  assume parsed: "JSON_parse rt m = Inr object" "get_prop object ''method'' = Inr method"
    and other: "method \<noteq> JStr ''prepareJSRuntime''" "method \<noteq> JStr ''$disconnected''"
  {
    assume "truthy method"
    with parsed other
    have "onMessage_try rt m s =
        (case singleLifetimeWorker s of
           Some w \<Rightarrow> Inr (perform (WorkerPostMessage w object)
                          (perform (LoggerVerbose (''From RN APP: '' @ m)) s))
         | None \<Rightarrow> Inr (perform (LoggerVerbose (''From RN APP: '' @ m)) s))"
      by (simp add: onMessage_try_def Let_def split: option.splits)
    then show "onMessage rt m s =
          Inr (s\<lparr>trace := trace s @ LoggerVerbose (''From RN APP: '' @ m)
                 # (case singleLifetimeWorker s of
                      None \<Rightarrow> []
                    | Some w \<Rightarrow> [WorkerPostMessage w object])\<rparr>)"
      by (cases "singleLifetimeWorker s") (simp_all add: onMessage_def perform_def)
  }
  {
    assume "\<not> truthy method"
    with parsed other
    have "onMessage_try rt m s =
        Inr (perform (LoggerVerbose
               (''The react-native app sent a message without specifying a method: '' @ m))
               (perform (LoggerVerbose (''From RN APP: '' @ m)) s))"
      by (simp add: onMessage_try_def Let_def)
    then show "onMessage rt m s =
          Inr (s\<lparr>trace := trace s @
                 [LoggerVerbose (''From RN APP: '' @ m),
                  LoggerVerbose
                    (''The react-native app sent a message without specifying a method: '' @ m)]\<rparr>)"
      by (simp add: onMessage_def perform_def)
  }
qed

theorem other_messages_forwarded_or_ignored_witness:
  \<open>JSON_parse example_runtime ''{"method":"executeApplicationScript","id":7}'' = Inr execute_script
   \<and> get_prop execute_script ''method'' = Inr (JStr ''executeApplicationScript'')
   \<and> JStr ''executeApplicationScript'' \<noteq> JStr ''prepareJSRuntime''
   \<and> JStr ''executeApplicationScript'' \<noteq> JStr ''$disconnected''
   \<and> truthy (JStr ''executeApplicationScript'')
   \<and> onMessage example_runtime ''{"method":"executeApplicationScript","id":7}''
         (example_manager\<lparr>singleLifetimeWorker := Some 0, next_handle := 1\<rparr>) =
       Inr (example_manager
             \<lparr>singleLifetimeWorker := Some 0, next_handle := 1,
              trace := [LoggerVerbose ''From RN APP: {"method":"executeApplicationScript","id":7}'',
                        WorkerPostMessage 0 execute_script]\<rparr>)
   \<and> JSON_parse example_runtime ''{"id":7}'' = Inr (JObj [(''id'', JNum 7)])
   \<and> get_prop (JObj [(''id'', JNum 7)]) ''method'' = Inr JUndefined
   \<and> \<not> truthy JUndefined
   \<and> onMessage example_runtime ''{"id":7}'' example_manager =
       Inr (example_manager
             \<lparr>trace := [LoggerVerbose ''From RN APP: {"id":7}'',
                        LoggerVerbose
                          ''The react-native app sent a message without specifying a method: {"id":7}'']\<rparr>)\<close>
proof -
  have p1: \<open>JSON_parse example_runtime ''{"method":"executeApplicationScript","id":7}'' = Inr execute_script\<close>
    by (simp add: example_runtime_def example_parse_def)
  have g1: "get_prop execute_script ''method'' = Inr (JStr ''executeApplicationScript'')"
    by (simp add: execute_script_def)
  have p2: \<open>JSON_parse example_runtime ''{"id":7}'' = Inr (JObj [(''id'', JNum 7)])\<close>
    by (simp add: example_runtime_def example_parse_def)
  have g2: "get_prop (JObj [(''id'', JNum 7)]) ''method'' = Inr JUndefined"
    by simp
  have t: "trace example_manager = []" "singleLifetimeWorker example_manager = None"
    by (simp_all add: example_manager_def)
  from other_messages_forwarded_or_ignored[OF p1 g1,
      of "example_manager\<lparr>singleLifetimeWorker := Some 0, next_handle := 1\<rparr>"]
    other_messages_forwarded_or_ignored[OF p2 g2, of example_manager]
    p1 g1 p2 g2 t
  show ?thesis by simp
qed

theorem falsy_method_and_null_counterexample:
  \<open>JSON_parse example_runtime ''{"method":""}'' = Inr (JObj [(''method'', JStr [])])
   \<and> map_of [(''method'', JStr [])] ''method'' = Some (JStr [])
   \<and> onMessage example_runtime ''{"method":""}''
         (example_manager\<lparr>singleLifetimeWorker := Some 0, next_handle := 1\<rparr>) =
       Inr (example_manager
             \<lparr>singleLifetimeWorker := Some 0, next_handle := 1,
              trace := [LoggerVerbose ''From RN APP: {"method":""}'',
                        LoggerVerbose
                          ''The react-native app sent a message without specifying a method: {"method":""}'']\<rparr>)
   \<and> JSON_parse example_runtime ''null'' = Inr JNull
   \<and> onMessage example_runtime ''null'' example_manager =
       Inr (example_manager
             \<lparr>trace := [LoggerVerbose ''From RN APP: null'',
                        LoggerError (NestedError
                          (InternalError FailedToProcessMessageFromReactNativeApp [JStr ''null''])
                          DebuggingWontWorkReloadJSAndReconnect TypeError)]\<rparr>)\<close>
  by (simp add: onMessage_def onMessage_try_def perform_def printDebuggingError_def
      example_runtime_def example_parse_def example_manager_def)

subsection \<open>Sending to the application\<close>

lemma socket_send_perform_fails:
  "socket_send v s = Inl x \<Longrightarrow> socket_send v (perform e s) = Inl x"
  by (auto simp: socket_send_def split: option.splits if_splits)

lemma nesting_nested_array: "nesting (nested_array n) = Suc n"
  by (induction n) simp_all

lemma nesting_nested_object: "nesting (nested_object n) = Suc n"
  by (induction n) simp_all

lemma ToString_nested_array: "d < n \<Longrightarrow> ToString d (nested_array n) = Inl RangeError"
proof (induction d arbitrary: n)
  case 0
  then show ?case by (cases n) simp_all
next
  case (Suc d)
  then obtain k where n: "n = Suc k" and "d < k" by (cases n) auto
  with Suc.IH[of k] have "ToString d (nested_array k) = Inl RangeError" by simp
  moreover have "nested_array k \<noteq> JUndefined" "nested_array k \<noteq> JNull"
    by (cases k; simp)+
  ultimately show ?case by (simp add: n)
qed

lemma ToString_nested_object: "ToString d (nested_object n) = Inr ''[object Object]''"
  by (cases n) simp_all

lemma example_stringify_deep:
  "JSON_stringify example_runtime (nested_array 1000000) = Inl RangeError"
  "JSON_stringify example_runtime (nested_object 1000000) = Inl RangeError"
  by (simp_all add: example_runtime_def example_stringify_def nesting_nested_array
      nesting_nested_object)

lemma example_stack_depth: "stack_depth example_runtime = 10000"
  by (simp add: example_runtime_def)

lemma quote_replyID: \<open>quote ''replyID'' = ''"replyID"''\<close>
  by (simp add: quote_def escape_def)

lemma example_stringify_reply42:
  \<open>JSON_stringify example_runtime (JObj [(''replyID'', JNum 42)]) = Inr (JStr ''{"replyID":42}'')\<close>
  by (simp add: example_runtime_def example_stringify_def quote_replyID Number_toString_42)

lemma example_stringify_undefined:
  "JSON_stringify example_runtime JUndefined = Inr JUndefined"
  by (simp add: example_runtime_def example_stringify_def)

text \<open>
  What \<^verbatim>\<open>sendMessageToApp\<close> does, case by case. An exception of \<^verbatim>\<open>JSON.stringify\<close> or
  of the socket write is caught and logged: with the serialised text when serialisation
  gave a text that is not empty, with the payload's string conversion when it threw or
  gave \<^verbatim>\<open>undefined\<close>. That conversion is made in the \<^verbatim>\<open>catch\<close> block: when it throws,
  its exception leaves \<^verbatim>\<open>sendMessageToApp\<close>. No exception leaves when serialisation
  gave a text that is not empty, nor when the payload can be converted to a string. With
  an open socket and no exception the text is written to the socket the manager holds.
\<close>

lemma sendMessageToApp_outcomes:
  "(JSON_stringify rt message = Inl exception \<longrightarrow>
      ToString (stack_depth rt) message = Inr shown \<longrightarrow>
        sendMessageToApp rt message s =
          Inr (s\<lparr>trace := trace s @
                 [LoggerError (NestedError
                    (InternalError FailedToSendMessageToTheReactNativeApp [JStr shown])
                    DebuggingWontWorkReloadJSAndReconnect exception)]\<rparr>))
   \<and> (JSON_stringify rt message = Inl exception \<longrightarrow>
      ToString (stack_depth rt) message = Inl thrown \<longrightarrow>
        sendMessageToApp rt message s = Inl thrown)
   \<and> (JSON_stringify rt message = Inr (JStr serialised) \<longrightarrow> serialised \<noteq> [] \<longrightarrow>
      socket_send (JStr serialised) s = Inl exception \<longrightarrow>
        sendMessageToApp rt message s =
          Inr (s\<lparr>trace := trace s @
                 [LoggerVerbose (''To RN APP: '' @ serialised),
                  LoggerError (NestedError
                    (InternalError FailedToSendMessageToTheReactNativeApp [JStr serialised])
                    DebuggingWontWorkReloadJSAndReconnect exception)]\<rparr>))
   \<and> (JSON_stringify rt message = Inr JUndefined \<longrightarrow>
      socket_send JUndefined s = Inl exception \<longrightarrow>
      ToString (stack_depth rt) message = Inr shown \<longrightarrow>
        sendMessageToApp rt message s =
          Inr (s\<lparr>trace := trace s @
                 [LoggerVerbose ''To RN APP: undefined'',
                  LoggerError (NestedError
                    (InternalError FailedToSendMessageToTheReactNativeApp [JStr shown])
                    DebuggingWontWorkReloadJSAndReconnect exception)]\<rparr>))
   \<and> (JSON_stringify rt message = Inr (JStr serialised) \<longrightarrow> socketToApp s = Some c \<longrightarrow>
      readyState (sockets s c) = OPEN \<longrightarrow>
        sendMessageToApp rt message s =
          Inr (s\<lparr>trace := trace s @
                 [LoggerVerbose (''To RN APP: '' @ serialised),
                  SocketSend c (JStr serialised)]\<rparr>))
   \<and> (JSON_stringify rt message = Inr (JStr serialised) \<longrightarrow> serialised \<noteq> [] \<longrightarrow>
        (\<exists>s'. sendMessageToApp rt message s = Inr s'))
   \<and> (ToString (stack_depth rt) message = Inr shown \<longrightarrow>
        (\<exists>s'. sendMessageToApp rt message s = Inr s'))"
proof (intro conjI impI)
  assume "JSON_stringify rt message = Inl exception"
    and "ToString (stack_depth rt) message = Inr shown"
  then show "sendMessageToApp rt message s =
          Inr (s\<lparr>trace := trace s @
                 [LoggerError (NestedError
                    (InternalError FailedToSendMessageToTheReactNativeApp [JStr shown])
                    DebuggingWontWorkReloadJSAndReconnect exception)]\<rparr>)"
    by (simp add: sendMessageToApp_def sendMessageToApp_try_def printDebuggingError_def perform_def)
next
  assume "JSON_stringify rt message = Inl exception"
    and "ToString (stack_depth rt) message = Inl thrown"
  then show "sendMessageToApp rt message s = Inl thrown"
    by (simp add: sendMessageToApp_def sendMessageToApp_try_def)
next
  assume st: "JSON_stringify rt message = Inr (JStr serialised)" and ne: "serialised \<noteq> []"
    and "socket_send (JStr serialised) s = Inl exception"
  then have "socket_send (JStr serialised)
      (perform (LoggerVerbose (''To RN APP: '' @ serialised)) s) = Inl exception"
    by (simp add: socket_send_perform_fails)
  with st ne show "sendMessageToApp rt message s =
          Inr (s\<lparr>trace := trace s @
                 [LoggerVerbose (''To RN APP: '' @ serialised),
                  LoggerError (NestedError
                    (InternalError FailedToSendMessageToTheReactNativeApp [JStr serialised])
                    DebuggingWontWorkReloadJSAndReconnect exception)]\<rparr>)"
    by (simp add: sendMessageToApp_def sendMessageToApp_try_def printDebuggingError_def)
next
  assume st: "JSON_stringify rt message = Inr JUndefined"
    and conv: "ToString (stack_depth rt) message = Inr shown"
    and "socket_send JUndefined s = Inl exception"
  then have "socket_send JUndefined
      (perform (LoggerVerbose ''To RN APP: undefined'') s) = Inl exception"
    by (simp add: socket_send_perform_fails)
  with st conv show "sendMessageToApp rt message s =
          Inr (s\<lparr>trace := trace s @
                 [LoggerVerbose ''To RN APP: undefined'',
                  LoggerError (NestedError
                    (InternalError FailedToSendMessageToTheReactNativeApp [JStr shown])
                    DebuggingWontWorkReloadJSAndReconnect exception)]\<rparr>)"
    by (simp add: sendMessageToApp_def sendMessageToApp_try_def printDebuggingError_def)
next
  assume "JSON_stringify rt message = Inr (JStr serialised)" and "socketToApp s = Some c"
    and "readyState (sockets s c) = OPEN"
  then show "sendMessageToApp rt message s =
          Inr (s\<lparr>trace := trace s @
                 [LoggerVerbose (''To RN APP: '' @ serialised),
                  SocketSend c (JStr serialised)]\<rparr>)"
    by (simp add: sendMessageToApp_def sendMessageToApp_try_def socket_send_def perform_def)
next
  assume "JSON_stringify rt message = Inr (JStr serialised)" and "serialised \<noteq> []"
  then show "\<exists>s'. sendMessageToApp rt message s = Inr s'"
    by (auto simp: sendMessageToApp_def sendMessageToApp_try_def Let_def split: sum.splits)
next
  assume "ToString (stack_depth rt) message = Inr shown"
  then show "\<exists>s'. sendMessageToApp rt message s = Inr s'"
    by (auto simp: sendMessageToApp_def sendMessageToApp_try_def Let_def
        split: sum.splits prod.splits)
qed

lemma sendMessageToApp_examples:
  \<open>JSON_stringify example_runtime (nested_object 1000000) = Inl RangeError
   \<and> ToString (stack_depth example_runtime) (nested_object 1000000) = Inr ''[object Object]''
   \<and> sendMessageToApp example_runtime (nested_object 1000000) example_manager =
       Inr (example_manager\<lparr>trace :=
          [LoggerError (NestedError
             (InternalError FailedToSendMessageToTheReactNativeApp [JStr ''[object Object]''])
             DebuggingWontWorkReloadJSAndReconnect RangeError)]\<rparr>)
   \<and> JSON_stringify example_runtime (nested_array 1000000) = Inl RangeError
   \<and> ToString (stack_depth example_runtime) (nested_array 1000000) = Inl RangeError
   \<and> sendMessageToApp example_runtime (nested_array 1000000) example_manager = Inl RangeError
   \<and> JSON_stringify example_runtime (JObj [(''replyID'', JNum 42)]) = Inr (JStr ''{"replyID":42}'')
   \<and> ''{"replyID":42}'' \<noteq> []
   \<and> socket_send (JStr ''{"replyID":42}'') example_manager = Inl TypeError
   \<and> sendMessageToApp example_runtime (JObj [(''replyID'', JNum 42)]) example_manager =
       Inr (example_manager\<lparr>trace :=
          [LoggerVerbose ''To RN APP: {"replyID":42}'',
           LoggerError (NestedError
             (InternalError FailedToSendMessageToTheReactNativeApp [JStr ''{"replyID":42}''])
             DebuggingWontWorkReloadJSAndReconnect TypeError)]\<rparr>)
   \<and> JSON_stringify example_runtime JUndefined = Inr JUndefined
   \<and> socket_send JUndefined example_manager = Inl TypeError
   \<and> ToString (stack_depth example_runtime) JUndefined = Inr ''undefined''
   \<and> sendMessageToApp example_runtime JUndefined example_manager =
       Inr (example_manager\<lparr>trace :=
          [LoggerVerbose ''To RN APP: undefined'',
           LoggerError (NestedError
             (InternalError FailedToSendMessageToTheReactNativeApp [JStr ''undefined''])
             DebuggingWontWorkReloadJSAndReconnect TypeError)]\<rparr>)
   \<and> socketToApp example_connected = Some 0
   \<and> readyState (sockets example_connected 0) = OPEN
   \<and> sendMessageToApp example_runtime (JObj [(''replyID'', JNum 42)]) example_connected =
       Inr (example_connected\<lparr>trace := trace example_connected @
          [LoggerVerbose ''To RN APP: {"replyID":42}'',
           SocketSend 0 (JStr ''{"replyID":42}'')]\<rparr>)\<close>
proof -
  have deep_obj: "ToString (stack_depth example_runtime) (nested_object 1000000) = Inr ''[object Object]''"
    by (rule ToString_nested_object)
  have deep_arr: "ToString (stack_depth example_runtime) (nested_array 1000000) = Inl RangeError"
    by (rule ToString_nested_array) (simp add: example_stack_depth)
  have c: "socket_send (JStr ''{\"replyID\":42}'') example_manager = Inl TypeError"
    "socket_send JUndefined example_manager = Inl TypeError"
    by (simp_all add: socket_send_def example_manager_def)
  have d: "socketToApp example_connected = Some 0" "readyState (sockets example_connected 0) = OPEN"
    by (simp_all add: example_connected_def)
  have u: "ToString (stack_depth example_runtime) JUndefined = Inr ''undefined''" by simp
  have t: "trace example_manager = []" by (simp add: example_manager_def)
  from sendMessageToApp_outcomes[of example_runtime "nested_object 1000000" RangeError
      "''[object Object]''" example_manager RangeError "[]" 0]
    sendMessageToApp_outcomes[of example_runtime "nested_array 1000000" RangeError
      "[]" example_manager RangeError "[]" 0]
    sendMessageToApp_outcomes[of example_runtime "JObj [(''replyID'', JNum 42)]" TypeError
      "[]" example_manager RangeError "''{\"replyID\":42}''" 0]
    sendMessageToApp_outcomes[of example_runtime JUndefined TypeError
      "''undefined''" example_manager RangeError "[]" 0]
    sendMessageToApp_outcomes[of example_runtime "JObj [(''replyID'', JNum 42)]" TypeError
      "[]" example_connected RangeError "''{\"replyID\":42}''" 0]
    example_stringify_deep example_stringify_reply42 example_stringify_undefined
    deep_obj deep_arr c d u t
  show ?thesis by simp
qed

text \<open>
  C9. The \<^verbatim>\<open>try\<close> block of \<^verbatim>\<open>sendMessageToApp\<close> holds the serialisation and the write,
  so that no failure of a send reaches the caller; the \<^verbatim>\<open>catch\<close> block, however, converts
  the payload to a string when there is no serialised text, outside any \<^verbatim>\<open>try\<close>. For an
  array nested so deeply that both \<^verbatim>\<open>JSON.stringify\<close> and the conversion exhaust the
  stack, and for an object with a \<^verbatim>\<open>toString\<close> member that is not a function around
  such an array, the exception of the conversion leaves \<^verbatim>\<open>sendMessageToApp\<close> and
  nothing is logged.
\<close>

theorem sendMessageToApp_propagates_conversion_error:
  "JSON_stringify example_runtime (nested_array 1000000) = Inl RangeError
   \<and> sendMessageToApp example_runtime (nested_array 1000000) example_connected = Inl RangeError
   \<and> JSON_stringify example_runtime
         (JObj [(''toString'', JNum 1), (''a'', nested_array 1000000)]) = Inl RangeError
   \<and> sendMessageToApp example_runtime
         (JObj [(''toString'', JNum 1), (''a'', nested_array 1000000)]) example_connected
       = Inl TypeError"
  using ToString_nested_array[of "stack_depth example_runtime" 1000000]
  by (simp add: example_stringify_deep example_stack_depth sendMessageToApp_def
      sendMessageToApp_try_def example_runtime_def example_stringify_def nesting_nested_array)

subsection \<open>The acknowledgement of prepareJSRuntime\<close>

lemma reply_conversion:
  "ToString d (JObj [(''replyID'', v)]) = Inr ''[object Object]''"
  by simp


lemma and_then_Inr: "and_then (Inr s) f = f s"
  by (simp add: and_then_def)












subsection \<open>The close of the packager socket\<close>

lemma scheduled_append: "scheduled (xs @ ys) = scheduled xs @ scheduled ys"
  by (induction xs rule: scheduled.induct) simp_all

lemma on_close_admitted:
  "now - lastExecution ''onSocketClose.msg'' s \<ge> 10 * 1000 \<Longrightarrow>
   on_close c now s =
     (let s1 = s\<lparr>executionLimiter := (executionLimiter s)(''onSocketClose.msg'' \<mapsto> now)\<rparr>;
          s2 = (if current_closeMessage s = Some ''Another debugger is already connected''
                then reject c (InternalError AnotherDebuggerConnectedToPackager []) s1 else s1)
      in s2\<lparr>trace := trace s @
           [LoggerLog ''Disconnected from the Proxy (Packager) to the React Native application. Retrying reconnection soon...'',
            SetTimeout 100 True]\<rparr>)"
  by (simp add: on_close_def execute_def current_closeMessage_def reject_def perform_def Let_def)

lemma on_close_suppressed:
  "now - lastExecution ''onSocketClose.msg'' s < 10 * 1000 \<Longrightarrow>
   on_close c now s = s\<lparr>trace := trace s @ [SetTimeout 100 True]\<rparr>"
  by (simp add: on_close_def execute_def perform_def)

lemma scheduled_on_close:
  "scheduled (trace (on_close c now s)) = scheduled (trace s) @ [(100, True)]"
proof (cases "now - lastExecution ''onSocketClose.msg'' s \<ge> 10 * 1000")
  case True
  then show ?thesis
    by (simp add: on_close_admitted Let_def reject_def scheduled_append)
next
  case False
  then show ?thesis
    by (simp add: on_close_suppressed scheduled_append)
qed

lemma start_retry:
  "start rt out True s =
     (if packager_running out
      then (Inr (next_handle s),
            s\<lparr>socketToApp := Some (next_handle s),
              sockets := (sockets s)(next_handle s :=
                 \<lparr>readyState = CONNECTING, closeMessage = [], listeners = True,
                  retryAttempt = True, deferred = Pending\<rparr>),
              next_handle := next_handle s + 1,
              trace := trace s @ [PackagerCheck (packagerAddress s) (packagerPort s),
                                  SocketCreate (next_handle s) (debuggerProxyUrl s)]\<rparr>)
      else (Inl (InternalError CannotAttachToPackagerCheckPackagerRunningOnPort
                   [JNum (packagerPort s)]),
            s\<lparr>trace := trace s @ [PackagerCheck (packagerAddress s) (packagerPort s)]\<rparr>))"
  by (simp add: start_def ensurePackagerRunning_def createSocketToApp_def debuggerProxyUrl_def
      perform_def Let_def)

lemma stop_removes_listeners:
  "socketToApp u = Some c \<Longrightarrow> \<not> listeners (sockets (stop u) c)"
  by (simp add: stop_def perform_def ws_close_def Let_def split: option.splits)

text \<open>
  C3, as the code has it. A close event of a socket whose handlers are registered sets
  exactly one timer, of 100 ms, for \<^verbatim>\<open>start(true)\<close>, whatever the reason of the close.
  A close event of a socket whose listeners were removed reaches no handler and has no
  effect: no timer is set. That is the case of the socket the manager holds once
  \<^verbatim>\<open>stop()\<close> was called. The call \<^verbatim>\<open>start(true)\<close>, in whatever state the timer fires,
  leaves the storage as it is and neither downloads, reads nor writes the bootstrap
  script.
\<close>

theorem close_schedules_one_retry:
  "socket_emit rt c (Closed reason now) s = Inr s' \<Longrightarrow>
     (listeners (sockets s c) \<longrightarrow> scheduled (trace s') = scheduled (trace s) @ [(100, True)])
     \<and> (\<not> listeners (sockets s c) \<longrightarrow> trace s' = trace s)
     \<and> (\<forall>u. socketToApp u = Some c \<longrightarrow>
           (\<exists>u'. socket_emit rt c (Closed reason now) (stop u) = Inr u'
                 \<and> trace u' = trace (stop u)))
     \<and> (\<forall>t. \<exists>t'. timer_fired rt out t = Inr t' \<and> t' = snd (start rt out True t)
           \<and> files t' = files t
           \<and> filter touches_script (trace t') = filter touches_script (trace t))"
proof (intro conjI impI allI)
  assume e: "socket_emit rt c (Closed reason now) s = Inr s'"
  {
    assume "listeners (sockets s c)"
    with e show "scheduled (trace s') = scheduled (trace s) @ [(100, True)]"
      by (auto simp: scheduled_on_close)
  }
  {
    assume "\<not> listeners (sockets s c)"
    with e show "trace s' = trace s" by auto
  }
  {
    fix u :: manager
    assume "socketToApp u = Some c"
    then have "\<not> listeners (sockets (stop u) c)" by (rule stop_removes_listeners)
    then show "\<exists>u'. socket_emit rt c (Closed reason now) (stop u) = Inr u'
        \<and> trace u' = trace (stop u)"
      by simp
  }
  {
    fix t
    show "\<exists>t'. timer_fired rt out t = Inr t' \<and> t' = snd (start rt out True t)
           \<and> files t' = files t
           \<and> filter touches_script (trace t') = filter touches_script (trace t)"
      by (simp add: timer_fired_def start_retry)
  }
qed

theorem close_schedules_one_retry_witness:
  "listeners (sockets example_connected 0)
   \<and> map_sum id trace (socket_emit example_runtime 0 (Closed [] 1600000000000) example_connected)
       = Inr (trace example_connected @
           [LoggerLog ''Disconnected from the Proxy (Packager) to the React Native application. Retrying reconnection soon...'',
            SetTimeout 100 True])
   \<and> map_sum id (\<lambda>s. scheduled (trace s))
        (socket_emit example_runtime 0 (Closed [] 1600000000000) example_connected)
       = Inr [(100, True)]
   \<and> socketToApp example_connected = Some 0
   \<and> map_sum id trace
        (socket_emit example_runtime 0 (Closed [] 1600000000000) (stop example_connected))
       = Inr (trace (stop example_connected))
   \<and> map_sum id files
        (and_then (socket_emit example_runtime 0 (Closed [] 1600000000000) example_connected)
           (timer_fired example_runtime example_outcome))
       = Inr (files example_connected)"
proof -
  have l: "listeners (sockets example_connected 0)" by (simp add: example_connected_def)
  have h: "socketToApp example_connected = Some 0" by (simp add: example_connected_def)
  have e: "socket_emit example_runtime 0 (Closed [] 1600000000000) example_connected =
      Inr (on_close 0 1600000000000
        (example_connected\<lparr>sockets := (sockets example_connected)
           (0 := (sockets example_connected 0)\<lparr>readyState := CLOSED, closeMessage := []\<rparr>)\<rparr>))"
    (is "_ = Inr ?s'")
    using l by simp
  have tr: "trace ?s' = trace example_connected @
           [LoggerLog ''Disconnected from the Proxy (Packager) to the React Native application. Retrying reconnection soon...'',
            SetTimeout 100 True]"
    by (simp add: on_close_def execute_def lastExecution_def current_closeMessage_def
        example_connected_def example_manager_def)
  have f: "files ?s' = files example_connected"
    by (simp add: on_close_def execute_def lastExecution_def current_closeMessage_def
        example_connected_def example_manager_def)
  have sc: "scheduled (trace example_connected) = []"
    by (simp add: example_connected_def)
  note inst = close_schedules_one_retry[OF e, of example_outcome]
  from inst h obtain u'
    where u': "socket_emit example_runtime 0 (Closed [] 1600000000000) (stop example_connected) = Inr u'"
      and tu: "trace u' = trace (stop example_connected)"
    by blast
  from inst l have "scheduled (trace ?s') = scheduled (trace example_connected) @ [(100, True)]"
    by blast
  moreover from inst have "\<exists>t'. timer_fired example_runtime example_outcome ?s' = Inr t'
      \<and> files t' = files ?s'"
    by blast
  ultimately show ?thesis
    using l h tr f sc tu
    unfolding e u' and_then_Inr
    by auto
qed

theorem close_after_stop_counterexample:
  "map_sum id trace
     (socket_emit example_runtime 0 (Closed [] 1600000000000) (stop example_connected))
     = Inr (trace example_connected @ [SocketRemoveAllListeners 0, SocketClose 0])
   \<and> map_sum id (scheduled \<circ> trace)
     (socket_emit example_runtime 0 (Closed [] 1600000000000) (stop example_connected))
     = Inr []"
  by (simp add: stop_def perform_def ws_close_def example_connected_def example_manager_def)

text \<open>
  C8, as the code has it. When the manager's own socket closes, the handler rejects the
  promise of the \<^verbatim>\<open>createSocketToApp\<close> call that made the socket with
  \<^verbatim>\<open>AnotherDebuggerConnectedToPackager\<close> if the recorded close message is the known
  text, the promise is still pending and the rate limiter admits the handler (no close
  was admitted during the 10 seconds before); the general disconnect line is logged as
  well. With any other close message, or when the limiter suppresses the handler, no
  promise changes.
\<close>

theorem another_debugger_condition:
  "listeners (sockets s c) \<Longrightarrow> socketToApp s = Some c \<Longrightarrow>
   socket_emit rt c (Closed reason now) s = Inr s' \<Longrightarrow>
     (now - lastExecution ''onSocketClose.msg'' s \<ge> 10 * 1000
        \<longrightarrow> reason = ''Another debugger is already connected''
        \<longrightarrow> deferred (sockets s c) = Pending
        \<longrightarrow> deferred (sockets s' c) = Rejected (InternalError AnotherDebuggerConnectedToPackager [])
            \<and> trace s' = trace s @
                 [LoggerLog ''Disconnected from the Proxy (Packager) to the React Native application. Retrying reconnection soon...'',
                  SetTimeout 100 True])
     \<and> (reason \<noteq> ''Another debugger is already connected''
        \<longrightarrow> (\<forall>k. deferred (sockets s' k) = deferred (sockets s k)))
     \<and> (now - lastExecution ''onSocketClose.msg'' s < 10 * 1000
        \<longrightarrow> (\<forall>k. deferred (sockets s' k) = deferred (sockets s k))
            \<and> trace s' = trace s @ [SetTimeout 100 True])"
proof -
  assume l: "listeners (sockets s c)" and cur: "socketToApp s = Some c"
    and e: "socket_emit rt c (Closed reason now) s = Inr s'"
  define s1 where "s1 = s\<lparr>sockets := (sockets s)
      (c := (sockets s c)\<lparr>readyState := CLOSED, closeMessage := reason\<rparr>)\<rparr>"
  have s': "s' = on_close c now s1" using l e by (simp add: s1_def)
  have last: "lastExecution ''onSocketClose.msg'' s1 = lastExecution ''onSocketClose.msg'' s"
    by (simp add: s1_def lastExecution_def)
  have msg: "current_closeMessage s1 = Some reason"
    using cur by (simp add: s1_def current_closeMessage_def)
  have d1: "\<And>k. deferred (sockets s1 k) = deferred (sockets s k)"
    by (simp add: s1_def)
  have t1: "trace s1 = trace s" by (simp add: s1_def)
  show ?thesis
  proof (intro conjI impI allI)
    assume "now - lastExecution ''onSocketClose.msg'' s \<ge> 10 * 1000"
      and "reason = ''Another debugger is already connected''"
      and "deferred (sockets s c) = Pending"
    then show "deferred (sockets s' c) = Rejected (InternalError AnotherDebuggerConnectedToPackager [])"
      using last msg d1[of c] by (simp add: s' on_close_admitted reject_def Let_def)
  next
    assume "now - lastExecution ''onSocketClose.msg'' s \<ge> 10 * 1000"
      and "reason = ''Another debugger is already connected''"
    then show "trace s' = trace s @
                 [LoggerLog ''Disconnected from the Proxy (Packager) to the React Native application. Retrying reconnection soon...'',
                  SetTimeout 100 True]"
      using last msg t1 by (simp add: s' on_close_admitted reject_def Let_def)
  next
    fix k
    assume other: "reason \<noteq> ''Another debugger is already connected''"
    show "deferred (sockets s' k) = deferred (sockets s k)"
    proof (cases "now - lastExecution ''onSocketClose.msg'' s \<ge> 10 * 1000")
      case True
      then show ?thesis
        using other last msg d1[of k] by (simp add: s' on_close_admitted Let_def)
    next
      case False
      then show ?thesis
        using last d1[of k] by (simp add: s' on_close_suppressed)
    qed
  next
    fix k
    assume "now - lastExecution ''onSocketClose.msg'' s < 10 * 1000"
    then show "deferred (sockets s' k) = deferred (sockets s k)"
      using last d1[of k] by (simp add: s' on_close_suppressed)
  next
    assume "now - lastExecution ''onSocketClose.msg'' s < 10 * 1000"
    then show "trace s' = trace s @ [SetTimeout 100 True]"
      using last t1 by (simp add: s' on_close_suppressed)
  qed
qed
lemma example_started_fields:
  "socketToApp example_started = Some 0"
  "sockets example_started 0 =
     \<lparr>readyState = CONNECTING, closeMessage = [], listeners = True,
      retryAttempt = False, deferred = Pending\<rparr>"
  "executionLimiter example_started = Map.empty"
  "next_handle example_started = 1"
  "packagerAddress example_started = ''localhost''"
  "packagerPort example_started = 8081"
  by (simp_all add: example_started_def start_def ensurePackagerRunning_def
      downloadAndPatchDebuggerWorker_def createSocketToApp_def scriptToRunPath_def
      example_runtime_def example_outcome_def example_manager_def Let_def)

theorem another_debugger_condition_witness:
  "listeners (sockets example_started 0) \<and> socketToApp example_started = Some 0
   \<and> 1600000000000 - lastExecution ''onSocketClose.msg'' example_started \<ge> 10 * 1000
   \<and> deferred (sockets example_started 0) = Pending
   \<and> map_sum id (promise_of 0)
        (socket_emit example_runtime 0
           (Closed ''Another debugger is already connected'' 1600000000000) example_started)
       = Inr (Rejected (InternalError AnotherDebuggerConnectedToPackager []))
   \<and> ''Connection lost'' \<noteq> ''Another debugger is already connected''
   \<and> map_sum id (promise_of 0)
        (socket_emit example_runtime 0 (Closed ''Connection lost'' 1600000000000) example_started)
       = Inr Pending
   \<and> 5000 - lastExecution ''onSocketClose.msg'' example_started < 10 * 1000
   \<and> map_sum id (promise_of 0)
        (socket_emit example_runtime 0
           (Closed ''Another debugger is already connected'' 5000) example_started)
       = Inr Pending"
proof -
  have l: "listeners (sockets example_started 0)" "socketToApp example_started = Some 0"
    "deferred (sockets example_started 0) = Pending"
    by (simp_all add: example_started_fields)
  have last: "lastExecution ''onSocketClose.msg'' example_started = 0"
    by (simp add: lastExecution_def example_started_fields)
  obtain s1 where s1: "socket_emit example_runtime 0
      (Closed ''Another debugger is already connected'' 1600000000000) example_started = Inr s1"
    using l(1) by simp
  obtain s2 where s2: "socket_emit example_runtime 0
      (Closed ''Connection lost'' 1600000000000) example_started = Inr s2"
    using l(1) by simp
  obtain s3 where s3: "socket_emit example_runtime 0
      (Closed ''Another debugger is already connected'' 5000) example_started = Inr s3"
    using l(1) by simp
  from another_debugger_condition[OF l(1) l(2) s1] another_debugger_condition[OF l(1) l(2) s2]
    another_debugger_condition[OF l(1) l(2) s3] l last s1 s2 s3
  show ?thesis by (simp add: promise_of_def)
qed

theorem repeated_close_counterexample:
  "map_sum id (promise_of 0)
     (socket_emit example_runtime 0
        (Closed ''Another debugger is already connected'' 1600000000000) example_started)
     = Inr (Rejected (InternalError AnotherDebuggerConnectedToPackager []))
   \<and> map_sum id (promise_of 1)
     (and_then
        (and_then
           (socket_emit example_runtime 0
              (Closed ''Another debugger is already connected'' 1600000000000) example_started)
           (timer_fired example_runtime example_outcome))
        (socket_emit example_runtime 1
           (Closed ''Another debugger is already connected'' 1600000000150)))
     = Inr Pending
   \<and> map_sum id trace
     (and_then
        (and_then
           (socket_emit example_runtime 0
              (Closed ''Another debugger is already connected'' 1600000000000) example_started)
           (timer_fired example_runtime example_outcome))
        (socket_emit example_runtime 1
           (Closed ''Another debugger is already connected'' 1600000000150)))
     = Inr (trace example_started @
         [LoggerLog ''Disconnected from the Proxy (Packager) to the React Native application. Retrying reconnection soon...'',
          SetTimeout 100 True,
          PackagerCheck ''localhost'' 8081,
          SocketCreate 1 (debuggerProxyUrl example_started),
          SetTimeout 100 True])"
proof -
  define s0 where "s0 = example_started\<lparr>sockets := (sockets example_started)
      (0 := (sockets example_started 0)\<lparr>readyState := CLOSED,
            closeMessage := ''Another debugger is already connected''\<rparr>)\<rparr>"
  have last0: "lastExecution ''onSocketClose.msg'' s0 = 0"
    by (simp add: s0_def lastExecution_def example_started_fields)
  have e1: "socket_emit example_runtime 0
      (Closed ''Another debugger is already connected'' 1600000000000) example_started
      = Inr (on_close 0 1600000000000 s0)"
    by (simp add: s0_def example_started_fields)
  have adm: "1600000000000 - lastExecution ''onSocketClose.msg'' s0 \<ge> 10 * 1000"
    by (simp add: last0)
  define s1 where "s1 = on_close 0 1600000000000 s0"
  have s1: "s1 = s0\<lparr>executionLimiter := [''onSocketClose.msg'' \<mapsto> 1600000000000],
      sockets := (sockets s0)(0 := (sockets s0 0)\<lparr>deferred :=
         Rejected (InternalError AnotherDebuggerConnectedToPackager [])\<rparr>),
      trace := trace s0 @
         [LoggerLog ''Disconnected from the Proxy (Packager) to the React Native application. Retrying reconnection soon...'',
          SetTimeout 100 True]\<rparr>"
    unfolding s1_def on_close_admitted[OF adm]
    by (simp add: Let_def reject_def current_closeMessage_def s0_def example_started_fields)
  have run: "packager_running example_outcome" by (simp add: example_outcome_def)
  define s2 where "s2 = snd (start example_runtime example_outcome True s1)"
  have e2: "timer_fired example_runtime example_outcome s1 = Inr s2"
    by (simp add: timer_fired_def s2_def)
  have s2: "s2 = s1\<lparr>socketToApp := Some 1,
              sockets := (sockets s1)(1 :=
                 \<lparr>readyState = CONNECTING, closeMessage = [], listeners = True,
                  retryAttempt = True, deferred = Pending\<rparr>),
              next_handle := 2,
              trace := trace s1 @ [PackagerCheck ''localhost'' 8081,
                                  SocketCreate 1 (debuggerProxyUrl example_started)]\<rparr>"
    unfolding s2_def
    by (simp add: start_retry run s1 s0_def example_started_fields debuggerProxyUrl_def)
  define s2' where "s2' = s2\<lparr>sockets := (sockets s2)
      (1 := (sockets s2 1)\<lparr>readyState := CLOSED,
            closeMessage := ''Another debugger is already connected''\<rparr>)\<rparr>"
  have e3: "socket_emit example_runtime 1
      (Closed ''Another debugger is already connected'' 1600000000150) s2
      = Inr (on_close 1 1600000000150 s2')"
    by (simp add: s2'_def s2)
  have last2: "lastExecution ''onSocketClose.msg'' s2' = 1600000000000"
    by (simp add: s2'_def s2 s1 lastExecution_def)
  have s3: "on_close 1 1600000000150 s2' = s2'\<lparr>trace := trace s2' @ [SetTimeout 100 True]\<rparr>"
    by (rule on_close_suppressed) (simp add: last2)
  have p0: "promise_of 0 s1 = Rejected (InternalError AnotherDebuggerConnectedToPackager [])"
    by (simp add: promise_of_def s1)
  have p1: "promise_of 1 (on_close 1 1600000000150 s2') = Pending"
    unfolding s3 by (simp add: promise_of_def s2'_def s2)
  have tr: "trace (on_close 1 1600000000150 s2') = trace example_started @
         [LoggerLog ''Disconnected from the Proxy (Packager) to the React Native application. Retrying reconnection soon...'',
          SetTimeout 100 True,
          PackagerCheck ''localhost'' 8081,
          SocketCreate 1 (debuggerProxyUrl example_started),
          SetTimeout 100 True]"
    unfolding s3 by (simp add: s2'_def s2 s1 s0_def)
  have c1: "and_then
      (socket_emit example_runtime 0
         (Closed ''Another debugger is already connected'' 1600000000000) example_started)
      (timer_fired example_runtime example_outcome) = Inr s2"
    unfolding e1 s1_def[symmetric] and_then_Inr e2 ..
  have c2: "and_then
      (and_then
         (socket_emit example_runtime 0
            (Closed ''Another debugger is already connected'' 1600000000000) example_started)
         (timer_fired example_runtime example_outcome))
      (socket_emit example_runtime 1
         (Closed ''Another debugger is already connected'' 1600000000150))
      = Inr (on_close 1 1600000000150 s2')"
    unfolding c1 and_then_Inr e3 ..
  show ?thesis
    unfolding c2
    unfolding e1 s1_def[symmetric]
    using p0 p1 tr by simp
qed

subsection \<open>Starting\<close>

lemma downloadAndPatch_success:
  assumes "downloadDebuggerWorker out (files s) = Inr fs"
    and "fs (scriptToRunPath rt s) = Some workerContent"
  shows "downloadAndPatchDebuggerWorker rt out s =
      Inr (s\<lparr>files := fs(scriptToRunPath rt s \<mapsto>
                 modifiedDebuggeeContent (isHaulProject rt (projectRootPath s)) workerContent),
             trace := trace s @
               [DownloadDebuggerWorker,
                ReadFile (scriptToRunPath rt s),
                WriteFile (scriptToRunPath rt s)
                  (modifiedDebuggeeContent (isHaulProject rt (projectRootPath s)) workerContent)]\<rparr>)"
  using assms
  by (simp add: downloadAndPatchDebuggerWorker_def scriptToRunPath_def perform_def Let_def)

text \<open>
  C4. \<^verbatim>\<open>start\<close> checks the packager first; when the check fails the promise is rejected
  with the packager-not-running error and nothing else is done. On a first start the
  check is followed by the download, the read and the write of the patched script, and
  only then by the creation of the socket; a failed download leaves no socket. On a retry
  the check is followed by the creation of the socket alone, and the storage stays as it
  was.
\<close>

theorem start_order:
  "(\<not> packager_running out \<longrightarrow>
      start rt out retry s =
        (Inl (InternalError CannotAttachToPackagerCheckPackagerRunningOnPort [JNum (packagerPort s)]),
         s\<lparr>trace := trace s @ [PackagerCheck (packagerAddress s) (packagerPort s)]\<rparr>))
   \<and> (packager_running out \<longrightarrow> downloadDebuggerWorker out (files s) = Inr fs
        \<longrightarrow> fs (scriptToRunPath rt s) = Some workerContent \<longrightarrow>
      fst (start rt out False s) = Inr (next_handle s)
      \<and> socketToApp (snd (start rt out False s)) = Some (next_handle s)
      \<and> files (snd (start rt out False s)) =
          fs(scriptToRunPath rt s \<mapsto>
               modifiedDebuggeeContent (isHaulProject rt (projectRootPath s)) workerContent)
      \<and> trace (snd (start rt out False s)) = trace s @
          [PackagerCheck (packagerAddress s) (packagerPort s),
           DownloadDebuggerWorker,
           ReadFile (scriptToRunPath rt s),
           WriteFile (scriptToRunPath rt s)
             (modifiedDebuggeeContent (isHaulProject rt (projectRootPath s)) workerContent),
           SocketCreate (next_handle s) (debuggerProxyUrl s)])
   \<and> (packager_running out \<longrightarrow> downloadDebuggerWorker out (files s) = Inl error \<longrightarrow>
      start rt out False s =
        (Inl error,
         s\<lparr>trace := trace s @
             [PackagerCheck (packagerAddress s) (packagerPort s), DownloadDebuggerWorker]\<rparr>))
   \<and> (packager_running out \<longrightarrow>
      fst (start rt out True s) = Inr (next_handle s)
      \<and> socketToApp (snd (start rt out True s)) = Some (next_handle s)
      \<and> trace (snd (start rt out True s)) = trace s @
          [PackagerCheck (packagerAddress s) (packagerPort s),
           SocketCreate (next_handle s) (debuggerProxyUrl s)])
   \<and> files (snd (start rt out True s)) = files s"
proof (intro conjI impI)
  assume "\<not> packager_running out"
  then show "start rt out retry s =
        (Inl (InternalError CannotAttachToPackagerCheckPackagerRunningOnPort [JNum (packagerPort s)]),
         s\<lparr>trace := trace s @ [PackagerCheck (packagerAddress s) (packagerPort s)]\<rparr>)"
    by (simp add: start_def ensurePackagerRunning_def perform_def)
next
  assume run: "packager_running out" and dl: "downloadDebuggerWorker out (files s) = Inr fs"
    and rd: "fs (scriptToRunPath rt s) = Some workerContent"
  let ?s1 = "perform (PackagerCheck (packagerAddress s) (packagerPort s)) s"
  have dl1: "downloadDebuggerWorker out (files ?s1) = Inr fs" using dl by simp
  have rd1: "fs (scriptToRunPath rt ?s1) = Some workerContent"
    using rd by (simp add: scriptToRunPath_def)
  have st: "start rt out False s =
      (let (c, s3) = createSocketToApp False
          (?s1\<lparr>files := fs(scriptToRunPath rt ?s1 \<mapsto>
                 modifiedDebuggeeContent (isHaulProject rt (projectRootPath ?s1)) workerContent),
             trace := trace ?s1 @
               [DownloadDebuggerWorker,
                ReadFile (scriptToRunPath rt ?s1),
                WriteFile (scriptToRunPath rt ?s1)
                  (modifiedDebuggeeContent (isHaulProject rt (projectRootPath ?s1)) workerContent)]\<rparr>)
       in (Inr c, s3))"
    using run by (simp add: start_def ensurePackagerRunning_def downloadAndPatch_success[OF dl1 rd1])
  show "fst (start rt out False s) = Inr (next_handle s)"
    by (simp add: st createSocketToApp_def Let_def)
  show "socketToApp (snd (start rt out False s)) = Some (next_handle s)"
    by (simp add: st createSocketToApp_def Let_def)
  show "files (snd (start rt out False s)) =
          fs(scriptToRunPath rt s \<mapsto>
               modifiedDebuggeeContent (isHaulProject rt (projectRootPath s)) workerContent)"
    by (simp add: st createSocketToApp_def Let_def scriptToRunPath_def)
  show "trace (snd (start rt out False s)) = trace s @
          [PackagerCheck (packagerAddress s) (packagerPort s),
           DownloadDebuggerWorker,
           ReadFile (scriptToRunPath rt s),
           WriteFile (scriptToRunPath rt s)
             (modifiedDebuggeeContent (isHaulProject rt (projectRootPath s)) workerContent),
           SocketCreate (next_handle s) (debuggerProxyUrl s)]"
    by (simp add: st createSocketToApp_def Let_def scriptToRunPath_def debuggerProxyUrl_def)
next
  assume "packager_running out" and "downloadDebuggerWorker out (files s) = Inl error"
  then show "start rt out False s =
        (Inl error,
         s\<lparr>trace := trace s @
             [PackagerCheck (packagerAddress s) (packagerPort s), DownloadDebuggerWorker]\<rparr>)"
    by (simp add: start_def ensurePackagerRunning_def downloadAndPatchDebuggerWorker_def
        perform_def Let_def)
next
  assume run: "packager_running out"
  show "fst (start rt out True s) = Inr (next_handle s)"
    using run by (simp add: start_retry)
  show "socketToApp (snd (start rt out True s)) = Some (next_handle s)"
    using run by (simp add: start_retry)
  show "trace (snd (start rt out True s)) = trace s @
          [PackagerCheck (packagerAddress s) (packagerPort s),
           SocketCreate (next_handle s) (debuggerProxyUrl s)]"
    using run by (simp add: start_retry)
next
  show "files (snd (start rt out True s)) = files s"
    by (simp add: start_retry)
qed
lemma example_url:
  "debuggerProxyUrl example_manager = ''ws://localhost:8081/debugger-proxy?role=debugger&name=vscode''"
  by (simp add: debuggerProxyUrl_def example_manager_def Number_toString_def decimal_numeral
      decimal_digit digit_char_values)

lemma example_manager_fields:
  "trace example_manager = []" "files example_manager = Map.empty"
  "next_handle example_manager = 0" "packagerAddress example_manager = ''localhost''"
  "packagerPort example_manager = 8081" "projectRootPath example_manager = ''/project''"
  "socketToApp example_manager = None" "singleLifetimeWorker example_manager = None"
  by (simp_all add: example_manager_def)

lemma example_script_path:
  "scriptToRunPath example_runtime example_manager = ''/project/.vscode/.react/debuggerWorker.js''"
  by (simp add: scriptToRunPath_def example_runtime_def example_manager_def)

theorem start_order_witness:
  "\<not> packager_running (example_outcome\<lparr>packager_running := False\<rparr>)
   \<and> start example_runtime (example_outcome\<lparr>packager_running := False\<rparr>) False example_manager =
       (Inl (InternalError CannotAttachToPackagerCheckPackagerRunningOnPort [JNum 8081]),
        example_manager\<lparr>trace := [PackagerCheck ''localhost'' 8081]\<rparr>)
   \<and> packager_running example_outcome
   \<and> downloadDebuggerWorker example_outcome (files example_manager) =
       Inr [''/project/.vscode/.react/debuggerWorker.js'' \<mapsto> ''onmessage = null;'']
   \<and> fst (start example_runtime example_outcome False example_manager) = Inr 0
   \<and> trace (snd (start example_runtime example_outcome False example_manager)) =
       [PackagerCheck ''localhost'' 8081,
        DownloadDebuggerWorker,
        ReadFile ''/project/.vscode/.react/debuggerWorker.js'',
        WriteFile ''/project/.vscode/.react/debuggerWorker.js''
          (modifiedDebuggeeContent False ''onmessage = null;''),
        SocketCreate 0 ''ws://localhost:8081/debugger-proxy?role=debugger&name=vscode'']
   \<and> downloadDebuggerWorker (example_outcome\<lparr>downloadDebuggerWorker := (\<lambda>fs. Inl (Failure ''404''))\<rparr>)
         (files example_manager) = Inl (Failure ''404'')
   \<and> start example_runtime (example_outcome\<lparr>downloadDebuggerWorker := (\<lambda>fs. Inl (Failure ''404''))\<rparr>)
         False example_manager =
       (Inl (Failure ''404''),
        example_manager\<lparr>trace := [PackagerCheck ''localhost'' 8081, DownloadDebuggerWorker]\<rparr>)
   \<and> trace (snd (start example_runtime example_outcome True example_manager)) =
       [PackagerCheck ''localhost'' 8081,
        SocketCreate 0 ''ws://localhost:8081/debugger-proxy?role=debugger&name=vscode'']
   \<and> files (snd (start example_runtime example_outcome True example_manager)) = Map.empty"
proof -
  let ?down = "example_outcome\<lparr>packager_running := False\<rparr>"
  let ?fail = "example_outcome\<lparr>downloadDebuggerWorker := (\<lambda>fs. Inl (Failure ''404''))\<rparr>"
  let ?fs = "[''/project/.vscode/.react/debuggerWorker.js'' \<mapsto> ''onmessage = null;'']"
  have a: "\<not> packager_running ?down" by simp
  have b: "packager_running example_outcome" "packager_running ?fail"
    by (simp_all add: example_outcome_def)
  have c: "downloadDebuggerWorker example_outcome (files example_manager) = Inr ?fs"
    by (simp add: example_outcome_def example_manager_fields)
  have d: "?fs (scriptToRunPath example_runtime example_manager) = Some ''onmessage = null;''"
    by (simp add: example_script_path)
  have e: "downloadDebuggerWorker ?fail (files example_manager) = Inl (Failure ''404'')"
    by simp
  have h: "isHaulProject example_runtime (projectRootPath example_manager) = False"
    by (simp add: example_runtime_def)
  from start_order[of ?down example_runtime False example_manager ?fs "''onmessage = null;''"
        "Failure ''404''"]
    start_order[of example_outcome example_runtime False example_manager ?fs "''onmessage = null;''"
        "Failure ''404''"]
    start_order[of ?fail example_runtime False example_manager ?fs "''onmessage = null;''"
        "Failure ''404''"]
    a b c d e h
  show ?thesis
    by (simp add: example_manager_fields example_url example_script_path)
qed

subsection \<open>The bootstrap script\<close>

lemma modifiedDebuggeeContent_text:
  "modifiedDebuggeeContent isHaul workerContent =
     WORKER_BOOTSTRAP @ ''\<newline>'' @ CONSOLE_TRACE_PATCH @ ''\<newline>''
     @ NODE_PROCESS_FINDING_PATCH @ ''\<newline>'' @ (if isHaul then FETCH_STUB else [])
     @ ''\<newline>'' @ workerContent @ ''\<newline>'' @ WORKER_DONE"
  by (simp add: modifiedDebuggeeContent_def Array_join_def)

text \<open>
  C5, as the code has it. The script is the join by newlines of six slots, in this order:
  the bootstrap shim, the console-trace patch, the process-finding patch, the fetch stub
  or, for a project that is not a Haul project, the empty text, the downloaded worker
  and the completion marker. With the stub it is the specification's composition; every
  shim and patch stands before the downloaded worker. This is the text that a
  successful \<^verbatim>\<open>downloadAndPatchDebuggerWorker\<close> leaves in the script file.
\<close>

theorem bootstrap_script_composition:
  "modifiedDebuggeeContent isHaul workerContent =
     WORKER_BOOTSTRAP @ ''\<newline>'' @ CONSOLE_TRACE_PATCH @ ''\<newline>''
     @ NODE_PROCESS_FINDING_PATCH @ ''\<newline>'' @ (if isHaul then FETCH_STUB else [])
     @ ''\<newline>'' @ workerContent @ ''\<newline>'' @ WORKER_DONE
   \<and> (isHaul \<longrightarrow>
        modifiedDebuggeeContent isHaul workerContent = bootstrap_as_specified isHaul workerContent)
   \<and> (downloadDebuggerWorker out (files s) = Inr fs \<longrightarrow>
        fs (scriptToRunPath rt s) = Some workerContent \<longrightarrow>
        (\<exists>s'. downloadAndPatchDebuggerWorker rt out s = Inr s'
           \<and> files s' (scriptToRunPath rt s) =
               Some (modifiedDebuggeeContent (isHaulProject rt (projectRootPath s)) workerContent)))"
proof (intro conjI impI)
  show "modifiedDebuggeeContent isHaul workerContent =
     WORKER_BOOTSTRAP @ ''\<newline>'' @ CONSOLE_TRACE_PATCH @ ''\<newline>''
     @ NODE_PROCESS_FINDING_PATCH @ ''\<newline>'' @ (if isHaul then FETCH_STUB else [])
     @ ''\<newline>'' @ workerContent @ ''\<newline>'' @ WORKER_DONE"
    by (rule modifiedDebuggeeContent_text)
next
  assume isHaul
  then show "modifiedDebuggeeContent isHaul workerContent = bootstrap_as_specified isHaul workerContent"
    by (simp add: modifiedDebuggeeContent_text bootstrap_as_specified_def)
next
  assume "downloadDebuggerWorker out (files s) = Inr fs"
    and "fs (scriptToRunPath rt s) = Some workerContent"
  then show "\<exists>s'. downloadAndPatchDebuggerWorker rt out s = Inr s'
           \<and> files s' (scriptToRunPath rt s) =
               Some (modifiedDebuggeeContent (isHaulProject rt (projectRootPath s)) workerContent)"
    by (simp add: downloadAndPatch_success)
qed

theorem bootstrap_script_composition_witness:
  "modifiedDebuggeeContent True ''onmessage = null;'' =
     bootstrap_as_specified True ''onmessage = null;''
   \<and> downloadDebuggerWorker example_outcome (files example_manager) =
       Inr [''/project/.vscode/.react/debuggerWorker.js'' \<mapsto> ''onmessage = null;'']
   \<and> (case downloadAndPatchDebuggerWorker example_runtime example_outcome example_manager of
         Inl failure \<Rightarrow> None
       | Inr s' \<Rightarrow> files s' ''/project/.vscode/.react/debuggerWorker.js'')
      = Some (WORKER_BOOTSTRAP @ ''\<newline>'' @ CONSOLE_TRACE_PATCH @ ''\<newline>''
              @ NODE_PROCESS_FINDING_PATCH @ ''\<newline>'' @ ''\<newline>''
              @ ''onmessage = null;'' @ ''\<newline>'' @ WORKER_DONE)"
proof -
  let ?fs = "[''/project/.vscode/.react/debuggerWorker.js'' \<mapsto> ''onmessage = null;'']"
  have c: "downloadDebuggerWorker example_outcome (files example_manager) = Inr ?fs"
    by (simp add: example_outcome_def example_manager_fields)
  have d: "?fs (scriptToRunPath example_runtime example_manager) = Some ''onmessage = null;''"
    by (simp add: example_script_path)
  have h: "isHaulProject example_runtime (projectRootPath example_manager) = False"
    by (simp add: example_runtime_def)
  note haul = bootstrap_script_composition[of True "''onmessage = null;''" example_outcome
      example_manager ?fs example_runtime]
  note plain = bootstrap_script_composition[of False "''onmessage = null;''" example_outcome
      example_manager ?fs example_runtime]
  from haul have a: "modifiedDebuggeeContent True ''onmessage = null;'' =
      bootstrap_as_specified True ''onmessage = null;''"
    by blast
  from plain c d obtain s' where
    s': "downloadAndPatchDebuggerWorker example_runtime example_outcome example_manager = Inr s'"
    and f: "files s' (scriptToRunPath example_runtime example_manager) =
      Some (modifiedDebuggeeContent (isHaulProject example_runtime (projectRootPath example_manager))
        ''onmessage = null;'')"
    by blast
  from plain have content: "modifiedDebuggeeContent False ''onmessage = null;'' =
      WORKER_BOOTSTRAP @ ''\<newline>'' @ CONSOLE_TRACE_PATCH @ ''\<newline>''
      @ NODE_PROCESS_FINDING_PATCH @ ''\<newline>'' @ ''\<newline>''
      @ ''onmessage = null;'' @ ''\<newline>'' @ WORKER_DONE"
    by simp
  from f have "files s' ''/project/.vscode/.react/debuggerWorker.js'' =
      Some (modifiedDebuggeeContent False ''onmessage = null;'')"
    by (simp add: h example_script_path)
  with a c s' content show ?thesis by simp
qed

theorem empty_slot_counterexample:
  "modifiedDebuggeeContent False ''onmessage = null;'' \<noteq>
     bootstrap_as_specified False ''onmessage = null;''
   \<and> modifiedDebuggeeContent False ''onmessage = null;'' =
       WORKER_BOOTSTRAP @ ''\<newline>'' @ CONSOLE_TRACE_PATCH @ ''\<newline>''
       @ NODE_PROCESS_FINDING_PATCH @ ''\<newline>'' @ ''\<newline>''
       @ ''onmessage = null;'' @ ''\<newline>'' @ WORKER_DONE
   \<and> bootstrap_as_specified False ''onmessage = null;'' =
       WORKER_BOOTSTRAP @ ''\<newline>'' @ CONSOLE_TRACE_PATCH @ ''\<newline>''
       @ NODE_PROCESS_FINDING_PATCH @ ''\<newline>''
       @ ''onmessage = null;'' @ ''\<newline>'' @ WORKER_DONE"
  by (simp add: modifiedDebuggeeContent_text bootstrap_as_specified_def)

subsection \<open>Stopping twice\<close>

lemma stop_effect:
  "stop s =
     s\<lparr>sockets := (case socketToApp s of
                     None \<Rightarrow> sockets s
                   | Some c \<Rightarrow> (sockets s)(c := ws_close ((sockets s c)\<lparr>listeners := False\<rparr>))),
       trace := trace s @ teardown_calls s\<rparr>"
  by (simp add: stop_def teardown_calls_def perform_def Let_def split: option.splits)

text \<open>
  \<^verbatim>\<open>stop()\<close> keeps the socket and the lifetime it tore down, so a second \<^verbatim>\<open>stop()\<close>
  makes the same calls again on the same objects. Apart from the record of these calls
  the state after the second call is the state after the first.
\<close>

lemma stop_twice:
  "trace (stop s) = trace s @ teardown_calls s
   \<and> stop (stop s) = (stop s)\<lparr>trace := trace s @ teardown_calls s @ teardown_calls s\<rparr>
   \<and> socketToApp (stop s) = socketToApp s
   \<and> singleLifetimeWorker (stop s) = singleLifetimeWorker s"
proof (intro conjI)
  show t1: "trace (stop s) = trace s @ teardown_calls s"
    by (simp add: stop_effect)
  show f1: "socketToApp (stop s) = socketToApp s"
    by (simp add: stop_effect)
  show f2: "singleLifetimeWorker (stop s) = singleLifetimeWorker s"
    by (simp add: stop_effect)
  have calls: "teardown_calls (stop s) = teardown_calls s"
    by (simp add: teardown_calls_def f1 f2)
  have socks: "(case socketToApp s of
                     None \<Rightarrow> sockets (stop s)
                   | Some c \<Rightarrow> (sockets (stop s))
                       (c := ws_close ((sockets (stop s) c)\<lparr>listeners := False\<rparr>)))
               = sockets (stop s)"
    by (cases "socketToApp s") (simp_all add: stop_effect ws_close_def)
  show "stop (stop s) = (stop s)\<lparr>trace := trace s @ teardown_calls s @ teardown_calls s\<rparr>"
    by (subst stop_effect) (simp add: f1 calls socks t1)
qed

lemma killWorker_clears:
  "singleLifetimeWorker (killWorker s) = None
   \<and> trace (killWorker (killWorker s)) = trace (killWorker s)"
  by (simp add: killWorker_def perform_def Let_def split: option.splits)

text \<open>
  C10. On a manager that holds socket 0 and lifetime 1, the second of two calls of
  \<^verbatim>\<open>stop()\<close> removes the listeners of the socket and calls \<^verbatim>\<open>close()\<close> on it again, and
  calls \<^verbatim>\<open>stop()\<close> on the lifetime again: \<^verbatim>\<open>stop()\<close> clears neither \<^verbatim>\<open>socketToApp\<close>
  nor \<^verbatim>\<open>singleLifetimeWorker\<close>, where \<^verbatim>\<open>killWorker\<close> clears the lifetime it stopped.
\<close>

theorem second_stop_repeats_teardown:
  "socketToApp example_running = Some 0 \<and> singleLifetimeWorker example_running = Some 1
   \<and> trace (stop example_running) =
     trace example_running @ [SocketRemoveAllListeners 0, SocketClose 0, WorkerStop 1]
   \<and> trace (stop (stop example_running)) =
     trace example_running @ [SocketRemoveAllListeners 0, SocketClose 0, WorkerStop 1,
                              SocketRemoveAllListeners 0, SocketClose 0, WorkerStop 1]
   \<and> singleLifetimeWorker (stop example_running) = Some 1
   \<and> singleLifetimeWorker (killWorker example_running) = None"
  by (simp add: stop_effect teardown_calls_def killWorker_def perform_def
      example_running_def example_connected_def)

subsection \<open>The invariant under the other operations\<close>

text \<open>
  The state the constructor makes satisfies the invariant of C1, and every other
  operation of the manager keeps it, as the message handler does.
\<close>

lemma at_most_one_from_trace:
  "at_most_one_from [] (tr @ es) \<longleftrightarrow>
     at_most_one_from [] tr \<and> at_most_one_from (live_lifetimes tr) es"
  by (simp add: at_most_one_from_append live_lifetimes_def)

lemma one_lifetime_length: "one_lifetime s \<Longrightarrow> length (live_lifetimes (trace s)) \<le> Suc 0"
  using never_two_live[of "trace s"] by (auto simp: one_lifetime_def)

lemma one_lifetime_held:
  "one_lifetime s \<Longrightarrow> singleLifetimeWorker s = Some w \<Longrightarrow>
     live_lifetimes (trace s) = [] \<or> live_lifetimes (trace s) = [w]"
  using live_subset_cases[of "live_lifetimes (trace s)" w] one_lifetime_length[of s]
  by (simp add: one_lifetime_def)

lemma new_manager_one_lifetime: "new_manager args storagePath rootPath = Inr s \<Longrightarrow> one_lifetime s"
  by (auto simp: new_manager_def one_lifetime_def live_lifetimes_def split: if_splits)

lemma stop_one_lifetime: "one_lifetime s \<Longrightarrow> one_lifetime (stop s)"
proof (cases "singleLifetimeWorker s")
  case None
  assume "one_lifetime s"
  with None one_lifetime_length[of s] show ?thesis
    by (auto simp: one_lifetime_def stop_effect teardown_calls_def at_most_one_from_trace
        live_lifetimes_append split: option.splits)
next
  case (Some w)
  assume inv: "one_lifetime s"
  from one_lifetime_held[OF inv Some] inv Some show ?thesis
    by (auto simp: one_lifetime_def stop_effect teardown_calls_def at_most_one_from_trace
        live_lifetimes_append split: option.splits)
qed

lemma start_one_lifetime: "one_lifetime s \<Longrightarrow> one_lifetime (snd (start rt out retry s))"
  using one_lifetime_length[of s]
  by (auto simp: one_lifetime_def start_def ensurePackagerRunning_def
      downloadAndPatchDebuggerWorker_def createSocketToApp_def perform_def Let_def
      at_most_one_from_trace live_lifetimes_append
      split: sum.splits prod.splits option.splits if_splits)

lemma sendMessageToApp_one_lifetime:
  "one_lifetime s \<Longrightarrow> sendMessageToApp rt v s = Inr s' \<Longrightarrow> one_lifetime s'"
  using one_lifetime_length[of s]
  by (auto simp: one_lifetime_def sendMessageToApp_def sendMessageToApp_try_def socket_send_def
      printDebuggingError_def perform_def Let_def
      at_most_one_from_trace live_lifetimes_append
      split: sum.splits prod.splits option.splits if_splits)

lemma start_rejected_one_lifetime: "one_lifetime s \<Longrightarrow> one_lifetime (start_rejected w error s)"
  using one_lifetime_length[of s]
  by (auto simp: one_lifetime_def start_rejected_def printDebuggingError_def perform_def
      at_most_one_from_trace live_lifetimes_append split: option.splits)

lemma start_resolved_one_lifetime:
  assumes inv: "one_lifetime s" and r: "start_resolved rt w ev s = Inr s'"
  shows "one_lifetime s'"
proof (cases "map_of (pending_starts s) w")
  case None
  with r inv show ?thesis by (simp add: start_resolved_def)
next
  case (Some message)
  let ?s2 = "perform (Emit ''connected'' ev)
      (s\<lparr>pending_starts := filter (\<lambda>p. fst p \<noteq> w) (pending_starts s)\<rparr>)"
  have "one_lifetime ?s2"
    using inv one_lifetime_length[of s]
    by (auto simp: one_lifetime_def perform_def at_most_one_from_trace live_lifetimes_append
        split: option.splits)
  with r Some show ?thesis
    by (auto simp: start_resolved_def Let_def split: sum.splits
        dest: sendMessageToApp_one_lifetime)
qed

lemma socket_emit_one_lifetime:
  assumes inv: "one_lifetime s" and e: "socket_emit rt c ev s = Inr s'"
  shows "one_lifetime s'"
proof (cases ev)
  case (Message m)
  with inv e show ?thesis
    by (auto split: if_splits dest: onMessage_one_lifetime)
next
  case (Opened now)
  with inv e one_lifetime_length[of s] show ?thesis
    by (auto simp: one_lifetime_def onSocketOpened_def execute_def perform_def Let_def
        at_most_one_from_trace live_lifetimes_append split: option.splits if_splits)
next
  case (Closed reason now)
  with inv e one_lifetime_length[of s] show ?thesis
    by (auto simp: one_lifetime_def on_close_def execute_def reject_def perform_def Let_def
        at_most_one_from_trace live_lifetimes_append split: option.splits if_splits)
next
  case (Errored x)
  with inv e one_lifetime_length[of s] show ?thesis
    by (auto simp: one_lifetime_def on_error_def reject_def printDebuggingError_def perform_def
        Let_def at_most_one_from_trace live_lifetimes_append split: option.splits if_splits)
next
  case Delayed
  with inv e show ?thesis
    by (auto simp: one_lifetime_def resolve_def split: option.splits if_splits)
qed

end
